theory Spec2Isabelle
  imports Complex_Main "HOL-Library.Word" "HOL-Library.AList"
begin

unbundle bit_operations_syntax

section \<open>Bytes, hexadecimal text and SHA-256\<close>

text \<open>
  The middleware's only cryptographic step is
  \<^verbatim>\<open>crypto.createHash('sha256').update(Buffer.from(preimage, 'hex')).digest('hex')\<close>.
  The three library operations it is built from are written out here: hexadecimal decoding
  as Node's \<^verbatim>\<open>Buffer.from(s, 'hex')\<close> performs it (pairs of characters, stopping at the
  first pair that is not two hexadecimal digits, a trailing single character dropped),
  SHA-256 as FIPS 180-4 defines it (its round constants and initial hash value are written
  in decimal), and lower-case hexadecimal encoding as
  \<^verbatim>\<open>digest('hex')\<close> and \<^verbatim>\<open>toString('hex')\<close> produce it.
  A JavaScript string is a \<^typ>\<open>string\<close>; header values reach the code as Latin-1 text,
  one \<^typ>\<open>char\<close> per character. A byte is an \<open>8 word\<close>; the 32-bit words of SHA-256 are
  natural numbers with the reduction modulo \<open>2 ^ 32\<close> written out.
\<close>

type_synonym byte = "8 word"

definition add32 :: "nat \<Rightarrow> nat \<Rightarrow> nat" where
  "add32 a b = (a + b) mod 2 ^ 32"

definition rotr :: "nat \<Rightarrow> nat \<Rightarrow> nat" where
  "rotr n x = x div 2 ^ n + (x mod 2 ^ n) * 2 ^ (32 - n)"

definition shr :: "nat \<Rightarrow> nat \<Rightarrow> nat" where
  "shr n x = x div 2 ^ n"

definition not32 :: "nat \<Rightarrow> nat" where
  "not32 x = 4294967295 - x"

definition Ch :: "nat \<Rightarrow> nat \<Rightarrow> nat \<Rightarrow> nat" where
  "Ch x y z = (x AND y) XOR (not32 x AND z)"

definition Maj :: "nat \<Rightarrow> nat \<Rightarrow> nat \<Rightarrow> nat" where
  "Maj x y z = (x AND y) XOR (x AND z) XOR (y AND z)"

definition bsig0 :: "nat \<Rightarrow> nat" where
  "bsig0 x = rotr 2 x XOR rotr 13 x XOR rotr 22 x"

definition bsig1 :: "nat \<Rightarrow> nat" where
  "bsig1 x = rotr 6 x XOR rotr 11 x XOR rotr 25 x"

definition ssig0 :: "nat \<Rightarrow> nat" where
  "ssig0 x = rotr 7 x XOR rotr 18 x XOR shr 3 x"

definition ssig1 :: "nat \<Rightarrow> nat" where
  "ssig1 x = rotr 17 x XOR rotr 19 x XOR shr 10 x"

definition K256 :: "nat list" where
  "K256 =
   [1116352408, 1899447441, 3049323471, 3921009573, 961987163, 1508970993,
    2453635748, 2870763221, 3624381080, 310598401, 607225278, 1426881987,
    1925078388, 2162078206, 2614888103, 3248222580, 3835390401, 4022224774,
    264347078, 604807628, 770255983, 1249150122, 1555081692, 1996064986,
    2554220882, 2821834349, 2952996808, 3210313671, 3336571891, 3584528711,
    113926993, 338241895, 666307205, 773529912, 1294757372, 1396182291,
    1695183700, 1986661051, 2177026350, 2456956037, 2730485921, 2820302411,
    3259730800, 3345764771, 3516065817, 3600352804, 4094571909, 275423344,
    430227734, 506948616, 659060556, 883997877, 958139571, 1322822218,
    1537002063, 1747873779, 1955562222, 2024104815, 2227730452, 2361852424,
    2428436474, 2756734187, 3204031479, 3329325298]"

definition H0 :: "nat list" where
  "H0 = [1779033703, 3144134277, 1013904242, 2773480762,
         1359893119, 2600822924, 528734635, 1541459225]"

text \<open>Big-endian conversions between bytes and 32-bit words.\<close>

fun be_nat :: "byte list \<Rightarrow> nat" where
  "be_nat [] = 0"
| "be_nat (b # bs) = unat b * 256 ^ length bs + be_nat bs"

definition word_bytes :: "nat \<Rightarrow> byte list" where
  "word_bytes w = [word_of_nat (w div 2 ^ 24), word_of_nat (w div 2 ^ 16),
                   word_of_nat (w div 2 ^ 8), word_of_nat w]"

definition len_bytes :: "nat \<Rightarrow> byte list" where
  "len_bytes n = [word_of_nat (n div 2 ^ 56), word_of_nat (n div 2 ^ 48),
                  word_of_nat (n div 2 ^ 40), word_of_nat (n div 2 ^ 32),
                  word_of_nat (n div 2 ^ 24), word_of_nat (n div 2 ^ 16),
                  word_of_nat (n div 2 ^ 8), word_of_nat n]"

text \<open>
  Padding: the byte \<open>0x80\<close>, then zero bytes up to 56 modulo 64, then the length of the
  message in bits as a 64-bit big-endian number.
\<close>

definition pad :: "byte list \<Rightarrow> byte list" where
  "pad m = m @ [0x80] @ replicate ((119 - length m mod 64) mod 64) 0
             @ len_bytes (8 * length m)"

fun chunks :: "nat \<Rightarrow> nat \<Rightarrow> 'a list \<Rightarrow> 'a list list" where
  "chunks 0 n xs = []"
| "chunks (Suc k) n xs = take n xs # chunks k n (drop n xs)"

text \<open>
  The message schedule is kept as a window of the last sixteen words: in round \<open>t\<close> the
  head of the window is \<open>W\<^sub>t\<close> and \<open>next_w\<close> is \<open>W\<^bsub>t+16\<^esub>\<close>.
\<close>

definition next_w :: "nat list \<Rightarrow> nat" where
  "next_w ws = add32 (add32 (ssig1 (ws ! 14)) (ws ! 9)) (add32 (ssig0 (ws ! 1)) (ws ! 0))"

fun round256 :: "nat list \<Rightarrow> nat \<Rightarrow> nat \<Rightarrow> nat list" where
  "round256 [a, b, c, d, e, f, g, h] k w =
     (let t1 = add32 (add32 (add32 h (bsig1 e)) (add32 (Ch e f g) k)) w;
          t2 = add32 (bsig0 a) (Maj a b c)
      in [add32 t1 t2, a, b, c, add32 d t1, e, f, g])"
| "round256 s _ _ = s"

fun rounds :: "nat list \<Rightarrow> nat list \<Rightarrow> nat list \<Rightarrow> nat list" where
  "rounds [] ws s = s"
| "rounds (k # ks) ws s = rounds ks (tl ws @ [next_w ws]) (round256 s k (hd ws))"

definition compress :: "nat list \<Rightarrow> byte list \<Rightarrow> nat list" where
  "compress hs block = map2 add32 hs (rounds K256 (map be_nat (chunks 16 4 block)) hs)"

definition sha256 :: "byte list \<Rightarrow> byte list" where
  "sha256 m = (let p = pad m
               in concat (map word_bytes (foldl compress H0 (chunks (length p div 64) 64 p))))"

text \<open>Lower-case hexadecimal text of a byte string, two digits per byte.\<close>

definition hexDigit :: "nat \<Rightarrow> char" where
  "hexDigit n = (if n < 10 then char_of (48 + n) else char_of (87 + n))"

definition hexEncode :: "byte list \<Rightarrow> string" where
  "hexEncode bs = concat (map (\<lambda>b. [hexDigit (unat b div 16), hexDigit (unat b mod 16)]) bs)"

text \<open>
  \<^verbatim>\<open>Buffer.from(s, 'hex')\<close>: digits of either case are accepted; decoding stops at the
  first pair holding a character that is no hexadecimal digit, and a single character
  left over at the end is ignored.
\<close>

definition unhex :: "char \<Rightarrow> nat option" where
  "unhex c = (let n = of_char c :: nat
              in if 48 \<le> n \<and> n \<le> 57 then Some (n - 48)
                 else if 97 \<le> n \<and> n \<le> 102 then Some (n - 87)
                 else if 65 \<le> n \<and> n \<le> 70 then Some (n - 55)
                 else None)"

fun hexDecode :: "string \<Rightarrow> byte list" where
  "hexDecode (a # b # rest) =
     (case (unhex a, unhex b) of
        (Some x, Some y) \<Rightarrow> word_of_nat (16 * x + y) # hexDecode rest
      | _ \<Rightarrow> [])"
| "hexDecode _ = []"

text \<open>
  \<^verbatim>\<open>String.prototype.toLowerCase\<close> on Latin-1 text: the letters \<open>A\<close> to \<open>Z\<close> and the
  accented capitals \<open>0xC0\<close> to \<open>0xDE\<close> (the multiplication sign \<open>0xD7\<close> apart) move up
  by 32; every other character stays.
\<close>

definition lowerChar :: "char \<Rightarrow> char" where
  "lowerChar c = (let n = of_char c :: nat
                  in if (65 \<le> n \<and> n \<le> 90) \<or> (192 \<le> n \<and> n \<le> 222 \<and> n \<noteq> 215)
                     then char_of (n + 32) else c)"

definition toLowerCase :: "string \<Rightarrow> string" where
  "toLowerCase s = map lowerChar s"

section \<open>The proof verifier\<close>

text \<open>
  \<^verbatim>\<open>verifyPreimage(preimage, paymentHash)\<close> of the middleware: the strict comparison
  \<^verbatim>\<open>hash === paymentHash\<close> of two strings.
\<close>

definition verifyPreimage :: "string \<Rightarrow> string \<Rightarrow> bool" where
  "verifyPreimage preimage paymentHash =
     (let hash = hexEncode (sha256 (hexDecode preimage))
      in hash = paymentHash)"

text \<open>
  The specification's \<open>commit\<close>: the SHA-256 hash, as hexadecimal text, of the bytes the
  secret's hexadecimal text decodes to.
\<close>

definition commit :: "string \<Rightarrow> string" where
  "commit secret = hexEncode (sha256 (hexDecode secret))"


section \<open>Values, errors and the platform\<close>

text \<open>
  A JavaScript number, as far as the code looks at one: it is compared, tested for
  truthiness and turned into text, never computed with. The finite doubles are rationals
  (the comparison of two doubles is the comparison of their values); the three values
  that are not finite are kept apart.
\<close>

datatype number = Finite rat | NaN | PosInfinity | NegInfinity

text \<open>The JavaScript comparison \<^verbatim>\<open>a > b\<close> on numbers: false whenever either side is NaN.\<close>

fun num_gt :: "number \<Rightarrow> number \<Rightarrow> bool" where
  "num_gt NaN b = False"
| "num_gt a NaN = False"
| "num_gt (Finite a) (Finite b) = (b < a)"
| "num_gt (Finite a) PosInfinity = False"
| "num_gt (Finite a) NegInfinity = True"
| "num_gt PosInfinity b = (b \<noteq> PosInfinity)"
| "num_gt NegInfinity b = False"

text \<open>
  A thrown error or a rejected promise is a value \<open>Inl (Error message)\<close> of a sum type;
  \<open>Inr\<close> is a normal return.
\<close>

datatype js_error = Error string

fun errMessage :: "js_error \<Rightarrow> string" where
  "errMessage (Error m) = m"

subsection \<open>Parsed JSON\<close>

text \<open>
  What \<^verbatim>\<open>res.json()\<close> and \<^verbatim>\<open>JSON.parse\<close> produce is untyped: the TypeScript casts of the
  source check nothing at run time. A parsed body is therefore a JSON value, an object
  being the list of its properties (each name once), and the value of a property read is
  a \<open>json option\<close>, \<open>None\<close> for \<^verbatim>\<open>undefined\<close>.
\<close>

datatype json =
    JNull
  | JBool bool
  | JNum number
  | JStr string
  | JArr "json list"
  | JObj "(string \<times> json) list"

text \<open>
  Reading a property of a value that is not null. The code reads the properties
  \<open>price\<close>, \<open>invoice\<close>, \<open>macaroon\<close>, \<open>payment_error\<close>, \<open>payment_preimage\<close>, \<open>r_hash\<close>,
  \<open>payment_request\<close>, \<open>version\<close>, \<open>paymentHash\<close> and \<open>service\<close>; no prototype has one of
  these, so only an object can hold them.
\<close>

fun field :: "json \<Rightarrow> string \<Rightarrow> json option" where
  "field (JObj kvs) k = map_of kvs k"
| "field v k = None"

text \<open>Truthiness: \<^verbatim>\<open>undefined\<close>, null, false, 0, NaN and the empty string are falsy.\<close>

fun truthy :: "json option \<Rightarrow> bool" where
  "truthy None = False"
| "truthy (Some JNull) = False"
| "truthy (Some (JBool b)) = b"
| "truthy (Some (JNum (Finite r))) = (r \<noteq> 0)"
| "truthy (Some (JNum NaN)) = False"
| "truthy (Some (JNum n)) = True"
| "truthy (Some (JStr s)) = (s \<noteq> [])"
| "truthy (Some v) = True"

subsection \<open>The records of \<^verbatim>\<open>types.ts\<close>\<close>

text \<open>
  The interfaces whose values the code itself builds or is configured with. Field names
  are those of the source; where two interfaces share a field name the later record
  carries a short prefix (\<open>ch_\<close> for the challenge, \<open>m_\<close> for the macaroon data, \<open>r_\<close> for
  the client's result, \<open>client_\<close> for the client configuration). The interfaces of the
  node's answers have no record: their fields are read from parsed JSON.
\<close>

record LndConfig =
  restHost :: string
  macaroon :: string
  skipTlsVerify :: "bool option"

text \<open>
  The body of the 402 response. Its \<open>invoice\<close> is whatever the node's answer holds as
  \<^verbatim>\<open>payment_request\<close>.
\<close>

record L402Challenge =
  code :: nat
  message :: string
  invoice :: "json option"
  ch_macaroon :: string
  ch_price :: number
  ch_description :: string

text \<open>
  The proof attached to a request. Its payment hash is a string, since it was found
  strictly equal to the hexadecimal text of a hash; its service is whatever the macaroon
  holds.
\<close>

record L402Proof =
  paid :: bool
  preimage :: string
  paymentHash :: string
  service :: "json option"

text \<open>The object that \<^verbatim>\<open>createServiceMacaroon\<close> builds and encodes.\<close>

record MacaroonData =
  version :: number
  m_paymentHash :: string
  m_service :: string
  issuedAt :: number

text \<open>
  The Express request and response, as far as the middleware reads and writes them;
  \<open>req_method\<close> is \<^verbatim>\<open>req.method\<close> and \<open>req_l402\<close> is \<^verbatim>\<open>req.l402\<close>.
\<close>

record Request =
  authorization :: "string option"
  req_method :: string
  path :: string
  req_l402 :: "L402Proof option"

datatype res_body = ErrorBody string | ChallengeBody L402Challenge

record ServerResponse =
  statusCode :: nat
  resHeaders :: "(string \<times> string) list"
  resBody :: "res_body option"

text \<open>
  One pass of a request through the middleware: the request, the response under
  construction and the number of times \<^verbatim>\<open>next()\<close> has been called.
\<close>

record Exchange =
  req :: Request
  res :: ServerResponse
  nextCalls :: nat

record L402MiddlewareConfig =
  node :: LndConfig
  price :: number
  description :: "string option"
  priceFn :: "(Request \<Rightarrow> js_error + number) option"

record L402ClientConfig =
  client_node :: LndConfig
  maxAutoPaySats :: "number option"

text \<open>
  The client's result: \<open>data\<close> is the parsed body, \<open>r_price\<close> the \<^verbatim>\<open>price\<close> property of the
  challenge as it was read (\<open>None\<close> for \<^verbatim>\<open>undefined\<close>, also when nothing was paid).
\<close>

record L402FetchResult =
  data :: json
  r_paid :: bool
  r_price :: "json option"
  r_preimage :: "string option"

subsection \<open>The network, the process and the library functions\<close>

record RequestInit =
  init_method :: "string option"
  init_headers :: "(string \<times> string) list"
  init_body :: "string option"

text \<open>
  A response of \<^verbatim>\<open>fetch\<close>; \<open>json\<close> is what \<^verbatim>\<open>res.json()\<close> settles to, the parsed body or a
  rejection.
\<close>

record FetchResponse =
  ok :: bool
  status :: nat
  statusText :: string
  json :: "js_error + json"

record FetchCall =
  call_url :: string
  call_init :: RequestInit
  call_tls :: "string option"

text \<open>
  The state of the Node process: the environment variable
  \<^verbatim>\<open>process.env.NODE_TLS_REJECT_UNAUTHORIZED\<close> (\<open>None\<close> when unset), the network calls made
  so far, each with the value the variable had when the call was made, the lines written
  by \<^verbatim>\<open>console.error\<close>, and the state \<open>'w\<close> of everything outside the process.
\<close>

record 'w process =
  NODE_TLS_REJECT_UNAUTHORIZED :: "string option"
  fetch_log :: "FetchCall list"
  console_log :: "string list"
  world :: 'w

text \<open>
  What the code takes from its platform is a parameter of the model:
  \<^item> the network behind the global \<^verbatim>\<open>fetch\<close>, a function of the outside world's state, so
    that answers may depend on what happened before, and \<^verbatim>\<open>Date.now()\<close>;
  \<^item> the conversions of the language where they are not a matter of a line: a number to
    text, a string to a number, an array or object to text and to a number (either may
    throw), and \<^verbatim>\<open>JSON.stringify\<close> of an object literal, given as its properties;
  \<^item> \<^verbatim>\<open>Buffer.from(x, 'base64')\<close>: the decoding of a string, the buffer made of an array or
    object (which may throw), and the TypeError thrown for any other argument;
  \<^item> the TypeError thrown when a property of null is read;
  \<^item> the encoding \<^verbatim>\<open>Buffer.from(JSON.stringify(d)).toString('base64')\<close> of a macaroon and
    \<^verbatim>\<open>JSON.parse(Buffer.from(s, 'base64').toString())\<close>, \<open>None\<close> where parsing throws.
\<close>

record 'w runtime =
  fetch_impl :: "string \<Rightarrow> RequestInit \<Rightarrow> 'w \<Rightarrow> (js_error + FetchResponse) \<times> 'w"
  date_now :: "'w \<Rightarrow> number"
  number_toString :: "number \<Rightarrow> string"
  string_toNumber :: "string \<Rightarrow> number"
  object_toString :: "json \<Rightarrow> js_error + string"
  object_toNumber :: "json \<Rightarrow> js_error + number"
  json_stringify :: "(string \<times> json option) list \<Rightarrow> string"
  base64_bytes :: "string \<Rightarrow> byte list"
  buffer_from_object :: "json \<Rightarrow> js_error + byte list"
  buffer_type_error :: "json option \<Rightarrow> js_error"
  null_read_error :: "string \<Rightarrow> js_error"
  macaroon_encode :: "MacaroonData \<Rightarrow> string"
  macaroon_decode :: "string \<Rightarrow> json option"

text \<open>
  \<^verbatim>\<open>v.k\<close> for a parsed value \<open>v\<close>: a TypeError if \<open>v\<close> is null, the property otherwise.
\<close>

definition getField :: "'w runtime \<Rightarrow> json \<Rightarrow> string \<Rightarrow> js_error + json option" where
  "getField rt v k = (case v of JNull \<Rightarrow> Inl (null_read_error rt k) | _ \<Rightarrow> Inr (field v k))"

text \<open>The conversion to text that a template literal applies.\<close>

definition toStr :: "'w runtime \<Rightarrow> json option \<Rightarrow> js_error + string" where
  "toStr rt v =
     (case v of
        None \<Rightarrow> Inr ''undefined''
      | Some JNull \<Rightarrow> Inr ''null''
      | Some (JBool b) \<Rightarrow> Inr (if b then ''true'' else ''false'')
      | Some (JNum n) \<Rightarrow> Inr (number_toString rt n)
      | Some (JStr s) \<Rightarrow> Inr s
      | Some (JArr xs) \<Rightarrow> object_toString rt (JArr xs)
      | Some (JObj kvs) \<Rightarrow> object_toString rt (JObj kvs))"

text \<open>The conversion to a number that a comparison with a number applies.\<close>

definition toNumber :: "'w runtime \<Rightarrow> json option \<Rightarrow> js_error + number" where
  "toNumber rt v =
     (case v of
        None \<Rightarrow> Inr NaN
      | Some JNull \<Rightarrow> Inr (Finite 0)
      | Some (JBool b) \<Rightarrow> Inr (Finite (if b then 1 else 0))
      | Some (JNum n) \<Rightarrow> Inr n
      | Some (JStr s) \<Rightarrow> Inr (string_toNumber rt s)
      | Some (JArr xs) \<Rightarrow> object_toNumber rt (JArr xs)
      | Some (JObj kvs) \<Rightarrow> object_toNumber rt (JObj kvs))"

text \<open>\<^verbatim>\<open>v > m\<close> for a property \<open>v\<close> and a number \<open>m\<close>.\<close>

definition greaterThan :: "'w runtime \<Rightarrow> json option \<Rightarrow> number \<Rightarrow> js_error + bool" where
  "greaterThan rt v m =
     (case toNumber rt v of Inl e \<Rightarrow> Inl e | Inr n \<Rightarrow> Inr (num_gt n m))"

text \<open>
  \<^verbatim>\<open>Buffer.from(v, 'base64')\<close>: a string is decoded; \<^verbatim>\<open>undefined\<close>, null, a boolean and a
  number are refused with a TypeError.
\<close>

definition bufferFromBase64 :: "'w runtime \<Rightarrow> json option \<Rightarrow> js_error + byte list" where
  "bufferFromBase64 rt v =
     (case v of
        Some (JStr s) \<Rightarrow> Inr (base64_bytes rt s)
      | Some (JArr xs) \<Rightarrow> buffer_from_object rt (JArr xs)
      | Some (JObj kvs) \<Rightarrow> buffer_from_object rt (JObj kvs)
      | _ \<Rightarrow> Inl (buffer_type_error rt v))"

text \<open>The global \<^verbatim>\<open>fetch\<close>: the call is recorded, the network answers.\<close>

definition fetch ::
  "'w runtime \<Rightarrow> string \<Rightarrow> RequestInit \<Rightarrow> 'w process
     \<Rightarrow> (js_error + FetchResponse) \<times> 'w process" where
  "fetch rt url init p =
     (case fetch_impl rt url init (world p) of
        (r, w') \<Rightarrow>
          (r, p\<lparr>fetch_log := fetch_log p @
                  [\<lparr>call_url = url, call_init = init,
                    call_tls = NODE_TLS_REJECT_UNAUTHORIZED p\<rparr>],
                world := w'\<rparr>))"

text \<open>String operations of the source.\<close>

definition startsWith :: "string \<Rightarrow> string \<Rightarrow> bool" where
  "startsWith s prefix = (take (length prefix) s = prefix)"

fun lastIndexFrom :: "nat \<Rightarrow> int \<Rightarrow> string \<Rightarrow> char \<Rightarrow> int" where
  "lastIndexFrom i found [] c = found"
| "lastIndexFrom i found (x # xs) c = lastIndexFrom (Suc i) (if x = c then int i else found) xs c"

definition lastIndexOf :: "string \<Rightarrow> char \<Rightarrow> int" where
  "lastIndexOf s c = lastIndexFrom 0 (- 1) s c"

section \<open>\<^verbatim>\<open>lnd-fetch.ts\<close>\<close>

text \<open>
  \<^verbatim>\<open>lndFetch\<close>: without \<^verbatim>\<open>skipTlsVerify\<close> a plain \<^verbatim>\<open>fetch\<close>; with it, the variable is
  saved, set to \<open>'0'\<close> for the call and put back in the \<^verbatim>\<open>finally\<close> block, whether the
  call resolved or rejected.
\<close>

definition lndFetch ::
  "'w runtime \<Rightarrow> string \<Rightarrow> RequestInit \<Rightarrow> bool option \<Rightarrow> 'w process
     \<Rightarrow> (js_error + FetchResponse) \<times> 'w process" where
  "lndFetch rt url init skip p =
     (if skip \<noteq> Some True then fetch rt url init p
      else
        (let saved = NODE_TLS_REJECT_UNAUTHORIZED p;
             p1 = p\<lparr>NODE_TLS_REJECT_UNAUTHORIZED := Some ''0''\<rparr>
         in case fetch rt url init p1 of
              (r, p2) \<Rightarrow>
                (r, (case saved of
                       None \<Rightarrow> p2\<lparr>NODE_TLS_REJECT_UNAUTHORIZED := None\<rparr>
                     | Some v \<Rightarrow> p2\<lparr>NODE_TLS_REJECT_UNAUTHORIZED := Some v\<rparr>))))"

section \<open>\<^verbatim>\<open>middleware.ts\<close>\<close>

definition createServiceMacaroon ::
  "'w runtime \<Rightarrow> string \<Rightarrow> string \<Rightarrow> 'w \<Rightarrow> string" where
  "createServiceMacaroon rt paymentHash' service' w =
     (let macaroonData = \<lparr>version = Finite 1, m_paymentHash = paymentHash',
                           m_service = service', issuedAt = date_now rt w\<rparr>
      in macaroon_encode rt macaroonData)"

text \<open>
  \<^verbatim>\<open>parseServiceMacaroon\<close>: null when decoding or parsing throws, when the parsed value is
  null (reading \<^verbatim>\<open>data.version\<close> throws inside the \<^verbatim>\<open>try\<close>), and when \<^verbatim>\<open>version\<close> or
  \<^verbatim>\<open>paymentHash\<close> is falsy; otherwise the parsed value itself, whatever the types of its
  properties.
\<close>

definition parseServiceMacaroon :: "'w runtime \<Rightarrow> string \<Rightarrow> json option" where
  "parseServiceMacaroon rt macaroonBase64 =
     (case macaroon_decode rt macaroonBase64 of
        None \<Rightarrow> None
      | Some d \<Rightarrow>
          (case getField rt d ''version'' of
             Inl e \<Rightarrow> None
           | Inr v \<Rightarrow>
               if truthy v \<and> truthy (field d ''paymentHash'') then Some d else None))"

text \<open>\<^verbatim>\<open>createInvoice\<close> returns the parsed body of the node's answer as it is.\<close>

definition createInvoice ::
  "'w runtime \<Rightarrow> string \<Rightarrow> string \<Rightarrow> number \<Rightarrow> string \<Rightarrow> 'w process
     \<Rightarrow> (js_error + json) \<times> 'w process" where
  "createInvoice rt restHost' macaroon' amount memo p =
     (case fetch rt (restHost' @ ''/v1/invoices'')
             \<lparr>init_method = Some ''POST'',
              init_headers = [(''Grpc-Metadata-macaroon'', macaroon'),
                              (''Content-Type'', ''application/json'')],
              init_body = Some (json_stringify rt
                                  [(''value'', Some (JStr (number_toString rt amount))),
                                   (''memo'', Some (JStr memo))])\<rparr> p of
        (Inl e, p1) \<Rightarrow> (Inl e, p1)
      | (Inr r, p1) \<Rightarrow>
          if \<not> ok r then
            (Inl (Error (''LND invoice creation failed: ''
                         @ number_toString rt (Finite (of_nat (status r)))
                         @ '' '' @ statusText r)), p1)
          else (case json r of
                  Inl e \<Rightarrow> (Inl e, p1)
                | Inr j \<Rightarrow> (Inr j, p1)))"

text \<open>
  \<^verbatim>\<open>l402(config)\<close> runs once, when the route is set up. Before it returns the request
  handler it writes the environment variable if \<^verbatim>\<open>node.skipTlsVerify\<close> is set.
\<close>

definition l402 :: "L402MiddlewareConfig \<Rightarrow> 'w process \<Rightarrow> 'w process" where
  "l402 config p =
     (if skipTlsVerify (node config) = Some True
      then p\<lparr>NODE_TLS_REJECT_UNAUTHORIZED := Some ''0''\<rparr>
      else p)"

text \<open>
  The body of the handler's \<^verbatim>\<open>try\<close> block: the price, the memo (\<open>memoFor\<close>: the
  configured description, or the generated one if there is none or it is empty), the
  invoice, the macaroon and the response with status 402. Any error on the way leaves the block: a
  pricing function or a node call that fails, an answer that is null (reading
  \<^verbatim>\<open>invoice.r_hash\<close> throws), an \<^verbatim>\<open>r_hash\<close> that \<^verbatim>\<open>Buffer.from\<close> refuses, a
  \<^verbatim>\<open>payment_request\<close> that cannot be turned into text for the header. The response is
  written only at the end; the status set before the header is built is overwritten by
  the \<^verbatim>\<open>catch\<close> block if building the header throws.
\<close>

definition memoFor :: "L402MiddlewareConfig \<Rightarrow> Request \<Rightarrow> string" where
  "memoFor config rq =
     (let generated = ''L402 access: '' @ req_method rq @ '' '' @ path rq
      in case description config of
           None \<Rightarrow> generated
         | Some d \<Rightarrow> if d \<noteq> [] then d else generated)"

definition issueChallenge ::
  "'w runtime \<Rightarrow> L402MiddlewareConfig \<Rightarrow> Request \<Rightarrow> ServerResponse \<Rightarrow> 'w process
     \<Rightarrow> (js_error + ServerResponse) \<times> 'w process" where
  "issueChallenge rt config rq rs p =
     (case (case priceFn config of Some f \<Rightarrow> f rq | None \<Rightarrow> Inr (price config)) of
        Inl e \<Rightarrow> (Inl e, p)
      | Inr finalPrice \<Rightarrow>
          (let memo = memoFor config rq
           in case createInvoice rt (restHost (node config)) (macaroon (node config))
                     finalPrice memo p of
                (Inl e, p1) \<Rightarrow> (Inl e, p1)
              | (Inr lnd, p1) \<Rightarrow>
                  (case getField rt lnd ''r_hash'' of
                     Inl e \<Rightarrow> (Inl e, p1)
                   | Inr r_hash \<Rightarrow>
                       (case bufferFromBase64 rt r_hash of
                          Inl e \<Rightarrow> (Inl e, p1)
                        | Inr bytes \<Rightarrow>
                            (let paymentHashHex = hexEncode bytes;
                                 serviceMacaroon =
                                   createServiceMacaroon rt paymentHashHex (path rq) (world p1)
                             in case toStr rt (field lnd ''payment_request'') of
                                  Inl e \<Rightarrow> (Inl e, p1)
                                | Inr payment_request \<Rightarrow>
                                    (Inr (rs\<lparr>statusCode := 402,
                                             resHeaders := AList.update ''WWW-Authenticate''
                                               (''L402 macaroon=\"'' @ serviceMacaroon
                                                @ ''\", invoice=\"'' @ payment_request @ ''\"'')
                                               (resHeaders rs),
                                             resBody := Some (ChallengeBody
                                               \<lparr>code = 402, message = ''Payment Required'',
                                                invoice = field lnd ''payment_request'',
                                                ch_macaroon = serviceMacaroon,
                                                ch_price = finalPrice,
                                                ch_description = memo\<rparr>)\<rparr>), p1))))))"

text \<open>
  The request handler that \<^verbatim>\<open>l402(config)\<close> returns. A header that starts with the
  scheme, in any case, is checked and leads to \<^verbatim>\<open>next()\<close> or to status 401; every other
  request is answered by the \<^verbatim>\<open>try\<close> block or, if that throws, by status 500.
  \<^verbatim>\<open>verifyPreimage\<close> compares with \<^verbatim>\<open>===\<close>, so a \<^verbatim>\<open>paymentHash\<close> that is no string never
  verifies.
\<close>

definition middleware ::
  "'w runtime \<Rightarrow> L402MiddlewareConfig \<Rightarrow> Exchange \<Rightarrow> 'w process
     \<Rightarrow> Exchange \<times> 'w process" where
  "middleware rt config ex p =
     (let authHeader = authorization (req ex);
          invalid = ex\<lparr>res := (res ex)\<lparr>statusCode := 401,
                                         resBody := Some (ErrorBody ''Invalid L402 token'')\<rparr>\<rparr>;
          challenged =
            (case issueChallenge rt config (req ex) (res ex) p of
               (Inr rs, p1) \<Rightarrow> (ex\<lparr>res := rs\<rparr>, p1)
             | (Inl e, p1) \<Rightarrow>
                 (ex\<lparr>res := (res ex)\<lparr>statusCode := 500,
                                      resBody := Some (ErrorBody ''Payment gateway error'')\<rparr>\<rparr>,
                  p1\<lparr>console_log := console_log p1 @
                        [''L402 middleware error: '' @ errMessage e]\<rparr>))
      in case authHeader of
           None \<Rightarrow> challenged
         | Some h \<Rightarrow>
             if h \<noteq> [] \<and> startsWith (toLowerCase h) ''l402 '' then
               (let token = drop 5 h;
                    colonIndex = lastIndexOf token CHR '':''
                in if colonIndex > 0 then
                     (let macaroonB64 = take (nat colonIndex) token;
                          preimage' = drop (nat (colonIndex + 1)) token
                      in case parseServiceMacaroon rt macaroonB64 of
                           None \<Rightarrow> (invalid, p)
                         | Some macaroonData \<Rightarrow>
                             (case field macaroonData ''paymentHash'' of
                                Some (JStr hash) \<Rightarrow>
                                  if verifyPreimage preimage' hash then
                                    (ex\<lparr>req := (req ex)\<lparr>req_l402 := Some
                                           \<lparr>paid = True, preimage = preimage',
                                            paymentHash = hash,
                                            service = field macaroonData ''service''\<rparr>\<rparr>,
                                         nextCalls := Suc (nextCalls ex)\<rparr>, p)
                                  else (invalid, p)
                              | _ \<Rightarrow> (invalid, p)))
                   else (invalid, p))
             else challenged)"

section \<open>\<^verbatim>\<open>client.ts\<close>\<close>

text \<open>
  The request that \<^verbatim>\<open>payInvoice\<close> sends to the node; the payment request is the
  \<^verbatim>\<open>invoice\<close> property of the challenge as it was read.
\<close>

definition paymentInit :: "'w runtime \<Rightarrow> string \<Rightarrow> json option \<Rightarrow> RequestInit" where
  "paymentInit rt macaroon' paymentRequest =
     \<lparr>init_method = Some ''POST'',
      init_headers = [(''Grpc-Metadata-macaroon'', macaroon'),
                      (''Content-Type'', ''application/json'')],
      init_body = Some (json_stringify rt [(''payment_request'', paymentRequest)])\<rparr>"

definition payInvoice ::
  "'w runtime \<Rightarrow> string \<Rightarrow> string \<Rightarrow> json option \<Rightarrow> bool option \<Rightarrow> 'w process
     \<Rightarrow> (js_error + json) \<times> 'w process" where
  "payInvoice rt restHost' macaroon' paymentRequest skip p =
     (case lndFetch rt (restHost' @ ''/v1/channels/transactions'')
             (paymentInit rt macaroon' paymentRequest) skip p of
        (Inl e, p1) \<Rightarrow> (Inl e, p1)
      | (Inr r, p1) \<Rightarrow>
          if \<not> ok r then
            (Inl (Error (''LND payment failed: ''
                         @ number_toString rt (Finite (of_nat (status r)))
                         @ '' '' @ statusText r)), p1)
          else (case json r of
                  Inl e \<Rightarrow> (Inl e, p1)
                | Inr j \<Rightarrow> (Inr j, p1)))"

text \<open>
  What the closure made by \<^verbatim>\<open>createL402Client\<close> holds: the node, the spend ceiling
  (10000 when the configuration gives none) and the token cache, a \<^verbatim>\<open>Map\<close> from URL to
  authorization header, here an association list in insertion order.
\<close>

record L402Client =
  cl_node :: LndConfig
  cl_maxAutoPaySats :: number
  tokenCache :: "(string \<times> string) list"

definition createL402Client :: "L402ClientConfig \<Rightarrow> L402Client" where
  "createL402Client config =
     \<lparr>cl_node = client_node config,
      cl_maxAutoPaySats = (case maxAutoPaySats config of None \<Rightarrow> Finite 10000 | Some m \<Rightarrow> m),
      tokenCache = []\<rparr>"

definition clearCache :: "L402Client \<Rightarrow> L402Client" where
  "clearCache c = c\<lparr>tokenCache := []\<rparr>"

definition cacheSize :: "L402Client \<Rightarrow> nat" where
  "cacheSize c = length (tokenCache c)"

text \<open>
  \<^verbatim>\<open>l402Fetch(url, options)\<close>, the client's \<^verbatim>\<open>fetch\<close>. It returns the result or the error
  thrown, the client with its cache as the call left it, and the process state.
  \<open>requestHeaders\<close> is the local \<^verbatim>\<open>headers\<close> of the first attempt: the caller's headers,
  with the cached token as \<^verbatim>\<open>Authorization\<close> if the cache holds a non-empty one.
  After a 402 the steps are those of the source, in its order: the price is read (a
  TypeError if the challenge is null) and compared; the invoice is paid; the payment
  error is read (a TypeError if the answer is null) and tested; the preimage is decoded
  (a TypeError if \<^verbatim>\<open>Buffer.from\<close> refuses it); the token is built; only then is the cache
  written and the request repeated.
\<close>

definition requestHeaders :: "L402Client \<Rightarrow> string \<Rightarrow> RequestInit \<Rightarrow> (string \<times> string) list" where
  "requestHeaders c url options =
     (case map_of (tokenCache c) url of
        None \<Rightarrow> init_headers options
      | Some cachedToken \<Rightarrow>
          if cachedToken \<noteq> []
          then AList.update ''Authorization'' cachedToken (init_headers options)
          else init_headers options)"

definition l402Fetch ::
  "'w runtime \<Rightarrow> L402Client \<Rightarrow> string \<Rightarrow> RequestInit \<Rightarrow> 'w process
     \<Rightarrow> (js_error + L402FetchResult) \<times> L402Client \<times> 'w process" where
  "l402Fetch rt c url options p =
     (let headers = requestHeaders c url options
      in case fetch rt url (options\<lparr>init_headers := headers\<rparr>) p of
           (Inl e, p1) \<Rightarrow> (Inl e, c, p1)
         | (Inr r, p1) \<Rightarrow>
             if status r \<noteq> 402 then
               (case json r of
                  Inl e \<Rightarrow> (Inl e, c, p1)
                | Inr d \<Rightarrow> (Inr \<lparr>data = d, r_paid = False, r_price = None, r_preimage = None\<rparr>,
                            c, p1))
             else
               (case json r of
                  Inl e \<Rightarrow> (Inl e, c, p1)
                | Inr challenge \<Rightarrow>
                    (case getField rt challenge ''price'' of
                       Inl e \<Rightarrow> (Inl e, c, p1)
                     | Inr price' \<Rightarrow>
                         (case greaterThan rt price' (cl_maxAutoPaySats c) of
                            Inl e \<Rightarrow> (Inl e, c, p1)
                          | Inr exceeds \<Rightarrow>
                              if exceeds then
                                (case toStr rt price' of
                                   Inl e \<Rightarrow> (Inl e, c, p1)
                                 | Inr shown \<Rightarrow>
                                     (Inl (Error (''L402 price ('' @ shown
                                                  @ '' sats) exceeds maxAutoPaySats (''
                                                  @ number_toString rt (cl_maxAutoPaySats c)
                                                  @ ''). ''
                                                  @ ''Increase the limit or pay manually.'')),
                                      c, p1))
                              else
                                (case payInvoice rt (restHost (cl_node c)) (macaroon (cl_node c))
                                        (field challenge ''invoice'') (skipTlsVerify (cl_node c))
                                        p1 of
                                   (Inl e, p2) \<Rightarrow> (Inl e, c, p2)
                                 | (Inr payment, p2) \<Rightarrow>
                                     (case getField rt payment ''payment_error'' of
                                        Inl e \<Rightarrow> (Inl e, c, p2)
                                      | Inr payment_error \<Rightarrow>
                                          if truthy payment_error then
                                            (case toStr rt payment_error of
                                               Inl e \<Rightarrow> (Inl e, c, p2)
                                             | Inr reason \<Rightarrow>
                                                 (Inl (Error (''Lightning payment failed: ''
                                                              @ reason)), c, p2))
                                          else
                                            (case bufferFromBase64 rt
                                                    (field payment ''payment_preimage'') of
                                               Inl e \<Rightarrow> (Inl e, c, p2)
                                             | Inr bytes \<Rightarrow>
                                                 (case toStr rt (field challenge ''macaroon'') of
                                                    Inl e \<Rightarrow> (Inl e, c, p2)
                                                  | Inr macaroon' \<Rightarrow>
  (let preimageHex = hexEncode bytes;
       l402Token = ''L402 '' @ macaroon' @ '':'' @ preimageHex;
       c' = c\<lparr>tokenCache := AList.update url l402Token (tokenCache c)\<rparr>
   in case fetch rt url
             (options\<lparr>init_headers := AList.update ''Authorization'' l402Token headers\<rparr>) p2 of
        (Inl e, p3) \<Rightarrow> (Inl e, c', p3)
      | (Inr authedRes, p3) \<Rightarrow>
          (case json authedRes of
             Inl e \<Rightarrow> (Inl e, c', p3)
           | Inr d \<Rightarrow>
               (Inr \<lparr>data = d, r_paid = True, r_price = price',
                     r_preimage = Some preimageHex\<rparr>, c', p3)))))))))))"

section \<open>Notions of the specification\<close>

text \<open>
  The recognised scheme: a header is present, not empty, and starts with \<open>l402\<close> and a
  space in any letter case. This is the test the handler applies to the header.
\<close>

definition hasL402Scheme :: "string option \<Rightarrow> bool" where
  "hasL402Scheme authHeader =
     (case authHeader of None \<Rightarrow> False | Some h \<Rightarrow> h \<noteq> [] \<and> startsWith (toLowerCase h) ''l402 '')"



section \<open>A scripted platform\<close>

text \<open>
  For concrete runs the platform is scripted the way the repository's tests stub it: the
  network answers each call with the next response of a list, whatever the call. The
  values are those of the tests: the preimage, its SHA-256 hash, their base64 forms and a
  macaroon for \<open>/api/test\<close>; a second macaroon has the string \<open>x\<close> as its version. The
  library functions are given on the arguments that occur.
\<close>

definition PREIMAGE_HEX :: string where
  "PREIMAGE_HEX = ''aabbccdd00112233aabbccdd00112233aabbccdd00112233aabbccdd00112233''"

definition PREIMAGE_B64 :: string where
  "PREIMAGE_B64 = ''qrvM3QARIjOqu8zdABEiM6q7zN0AESIzqrvM3QARIjM=''"

definition PAYMENT_HASH :: string where
  "PAYMENT_HASH = ''964d416b01134ba7a3a1aa0d4ef7410ef431756f83673e69f8e0fc3a05807190''"

definition PAYMENT_HASH_UPPER :: string where
  "PAYMENT_HASH_UPPER = ''964D416B01134BA7A3A1AA0D4EF7410EF431756F83673E69F8E0FC3A05807190''"

definition PAYMENT_HASH_B64 :: string where
  "PAYMENT_HASH_B64 = ''lk1BawETS6ejoaoNTvdBDvQxdW+DZz5p+OD8OgWAcZA=''"

definition MACAROON_DATA :: MacaroonData where
  "MACAROON_DATA = \<lparr>version = Finite 1, m_paymentHash = PAYMENT_HASH,
                     m_service = ''/api/test'', issuedAt = Finite 1700000000000\<rparr>"

definition MACAROON_JSON :: json where
  "MACAROON_JSON = JObj [(''version'', JNum (Finite 1)), (''paymentHash'', JStr PAYMENT_HASH),
                         (''service'', JStr ''/api/test''),
                         (''issuedAt'', JNum (Finite 1700000000000))]"

definition MACAROON_B64 :: string where
  "MACAROON_B64 = ''eyJ2ZXJzaW9uIjoxLCJwYXltZW50SGFzaCI6Ijk2NGQ0MTZiMDExMzRiYTdhM2ExYWEwZDRlZjc0MTBlZjQzMTc1NmY4MzY3M2U2OWY4ZTBmYzNhMDU4MDcxOTAiLCJzZXJ2aWNlIjoiL2FwaS90ZXN0IiwiaXNzdWVkQXQiOjE3MDAwMDAwMDAwMDB9''"

definition MACAROON_X_JSON :: json where
  "MACAROON_X_JSON = JObj [(''version'', JStr ''x''), (''paymentHash'', JStr PAYMENT_HASH)]"

definition MACAROON_X_B64 :: string where
  "MACAROON_X_B64 = ''eyJ2ZXJzaW9uIjoieCIsInBheW1lbnRIYXNoIjoiOTY0ZDQxNmIwMTEzNGJhN2EzYTFhYTBkNGVmNzQxMGVmNDMxNzU2ZjgzNjczZTY5ZjhlMGZjM2EwNTgwNzE5MCJ9''"

function showNat :: "nat \<Rightarrow> string" where
  "showNat n = (if n < 10 then [char_of (48 + n)]
                else showNat (n div 10) @ [char_of (48 + n mod 10)])"
  by pat_completeness auto
termination
  by (relation "measure id") auto

declare showNat.simps [simp del]

fun jsonField :: "string \<times> json option \<Rightarrow> string list" where
  "jsonField (k, Some (JStr v)) = [''\"'' @ k @ ''\":\"'' @ v @ ''\"'']"
| "jsonField (k, v) = []"

fun joinComma :: "string list \<Rightarrow> string" where
  "joinComma [] = []"
| "joinComma [x] = x"
| "joinComma (x # xs) = x @ '','' @ joinComma xs"

definition scripted :: "(js_error + FetchResponse) list runtime" where
  "scripted =
     \<lparr>fetch_impl = (\<lambda>url init w. case w of
                       [] \<Rightarrow> (Inl (Error ''fetch failed''), [])
                     | answer # rest \<Rightarrow> (answer, rest)),
      date_now = (\<lambda>w. Finite 1700000000000),
      number_toString = (\<lambda>n. case n of
                           Finite r \<Rightarrow> (if r < 0 then ''-'' else []) @ showNat (nat \<lfloor>\<bar>r\<bar>\<rfloor>)
                         | NaN \<Rightarrow> ''NaN''
                         | PosInfinity \<Rightarrow> ''Infinity''
                         | NegInfinity \<Rightarrow> ''-Infinity''),
      string_toNumber = (\<lambda>s. NaN),
      object_toString = (\<lambda>v. Inr ''[object Object]''),
      object_toNumber = (\<lambda>v. Inr NaN),
      json_stringify = (\<lambda>kvs. ''{'' @ joinComma (concat (map jsonField kvs)) @ ''}''),
      base64_bytes = (\<lambda>s. if s = PREIMAGE_B64 then hexDecode PREIMAGE_HEX
                           else if s = PAYMENT_HASH_B64 then hexDecode PAYMENT_HASH
                           else []),
      buffer_from_object = (\<lambda>v. Inr []),
      buffer_type_error = (\<lambda>v. Error ''The first argument must be of type string''),
      null_read_error = (\<lambda>k. Error (''Cannot read properties of null (reading '' @ k @ '')'')),
      macaroon_encode = (\<lambda>d. if d = MACAROON_DATA then MACAROON_B64 else []),
      macaroon_decode = (\<lambda>s. if s = MACAROON_B64 then Some MACAROON_JSON
                              else if s = MACAROON_X_B64 then Some MACAROON_X_JSON
                              else None)\<rparr>"

definition testNode :: LndConfig where
  "testNode = \<lparr>restHost = ''https://localhost:8082'', macaroon = ''deadbeef'',
               skipTlsVerify = None\<rparr>"

definition testConfig :: "number \<Rightarrow> L402MiddlewareConfig" where
  "testConfig amount = \<lparr>node = testNode, price = amount, description = None, priceFn = None\<rparr>"

definition freshProcess :: "'w \<Rightarrow> 'w process" where
  "freshProcess w = \<lparr>NODE_TLS_REJECT_UNAUTHORIZED = None, fetch_log = [], console_log = [],
                     world = w\<rparr>"

definition mockReq :: "string option \<Rightarrow> Exchange" where
  "mockReq auth =
     \<lparr>req = \<lparr>authorization = auth, req_method = ''GET'', path = ''/api/test'', req_l402 = None\<rparr>,
      res = \<lparr>statusCode = 0, resHeaders = [], resBody = None\<rparr>,
      nextCalls = 0\<rparr>"

definition invoiceAnswer :: "js_error + FetchResponse" where
  "invoiceAnswer =
     Inr \<lparr>ok = True, status = 200, statusText = ''OK'',
          json = Inr (JObj [(''r_hash'', JStr PAYMENT_HASH_B64),
                            (''payment_request'', JStr ''lnbc100n1fake_invoice''),
                            (''add_index'', JStr ''1'')])\<rparr>"

text \<open>An answer of the node that has no \<^verbatim>\<open>r_hash\<close>.\<close>

definition invoiceAnswerNoHash :: "js_error + FetchResponse" where
  "invoiceAnswerNoHash =
     Inr \<lparr>ok = True, status = 200, statusText = ''OK'',
          json = Inr (JObj [(''payment_request'', JStr ''lnbc100n1fake_invoice'')])\<rparr>"

definition make402Response :: "number \<Rightarrow> js_error + FetchResponse" where
  "make402Response amount =
     Inr \<lparr>ok = False, status = 402, statusText = ''Payment Required'',
          json = Inr (JObj [(''code'', JNum (Finite 402)),
                            (''message'', JStr ''Payment Required''),
                            (''invoice'', JStr ''lnbc100n1fake_invoice''),
                            (''macaroon'', JStr MACAROON_B64),
                            (''price'', JNum amount),
                            (''description'', JStr ''L402 access'')])\<rparr>"

definition makeResponse :: "nat \<Rightarrow> string \<Rightarrow> js_error + FetchResponse" where
  "makeResponse st body =
     Inr \<lparr>ok = (200 \<le> st \<and> st < 300), status = st, statusText = [], json = Inr (JStr body)\<rparr>"

definition makeLndPaymentResponse :: "js_error + FetchResponse" where
  "makeLndPaymentResponse =
     Inr \<lparr>ok = True, status = 200, statusText = ''OK'',
          json = Inr (JObj [(''payment_error'', JStr []),
                            (''payment_preimage'', JStr PREIMAGE_B64)])\<rparr>"

text \<open>An answer of the node that reports no error and holds no preimage.\<close>

definition paymentAnswerNoPreimage :: "js_error + FetchResponse" where
  "paymentAnswerNoPreimage =
     Inr \<lparr>ok = True, status = 200, statusText = ''OK'',
          json = Inr (JObj [(''payment_error'', JStr [])])\<rparr>"


text \<open>
  The client of the tests, its target, the token it ends up caching, and the calls a
  paying run leaves in the log.
\<close>

definition testUrl :: string where
  "testUrl = ''https://api.example.com/test''"

definition emptyInit :: RequestInit where
  "emptyInit = \<lparr>init_method = None, init_headers = [], init_body = None\<rparr>"

definition testClient :: "number option \<Rightarrow> L402Client" where
  "testClient limit = createL402Client \<lparr>client_node = testNode, maxAutoPaySats = limit\<rparr>"

definition L402_TOKEN :: string where
  "L402_TOKEN = ''L402 '' @ MACAROON_B64 @ '':'' @ PREIMAGE_HEX"

definition paymentCall :: FetchCall where
  "paymentCall =
     \<lparr>call_url = ''https://localhost:8082/v1/channels/transactions'',
      call_init = \<lparr>init_method = Some ''POST'',
                   init_headers = [(''Grpc-Metadata-macaroon'', ''deadbeef''),
                                   (''Content-Type'', ''application/json'')],
                   init_body = Some ''{\"payment_request\":\"lnbc100n1fake_invoice\"}''\<rparr>,
      call_tls = None\<rparr>"

definition targetCall :: "(string \<times> string) list \<Rightarrow> FetchCall" where
  "targetCall hs = \<lparr>call_url = testUrl, call_init = emptyInit\<lparr>init_headers := hs\<rparr>,
                    call_tls = None\<rparr>"

section \<open>Hexadecimal text and the hash of the test preimage\<close>

lemma hexDigit_code: "n < 16 \<Longrightarrow> of_char (hexDigit n) = (if n < 10 then 48 + n else 87 + n)"
  by (simp add: hexDigit_def)

lemma hexDigit_inj: "m < 16 \<Longrightarrow> n < 16 \<Longrightarrow> hexDigit m = hexDigit n \<Longrightarrow> m = n"
proof -
  assume m: "m < 16" and n: "n < 16" and e: "hexDigit m = hexDigit n"
  from e have "(of_char (hexDigit m) :: nat) = of_char (hexDigit n)" by simp
  with m n show "m = n" by (simp add: hexDigit_code split: if_splits)
qed

lemma byte_digits_inj:
  fixes b c :: byte
  assumes "hexDigit (unat b div 16) = hexDigit (unat c div 16)"
    and "hexDigit (unat b mod 16) = hexDigit (unat c mod 16)"
  shows "b = c"
proof -
  have bb: "unat b < 256" and cc: "unat c < 256"
    using unsigned_less [of b] unsigned_less [of c] by simp_all
  then have "unat b div 16 < 16" "unat c div 16 < 16" by simp_all
  then have d: "unat b div 16 = unat c div 16" using assms(1) by (rule hexDigit_inj)
  have "unat b mod 16 < 16" "unat c mod 16 < 16" by simp_all
  then have m: "unat b mod 16 = unat c mod 16" using assms(2) by (rule hexDigit_inj)
  have "unat b = 16 * (unat b div 16) + unat b mod 16" by simp
  also have "\<dots> = 16 * (unat c div 16) + unat c mod 16" using d m by simp
  also have "\<dots> = unat c" by simp
  finally show ?thesis by (simp add: word_unat_eq_iff)
qed

lemma hexEncode_Nil: "hexEncode [] = []"
  by (simp add: hexEncode_def)

lemma hexEncode_Cons:
  "hexEncode (b # bs) = hexDigit (unat b div 16) # hexDigit (unat b mod 16) # hexEncode bs"
  by (simp add: hexEncode_def)

text \<open>Hexadecimal encoding loses nothing: equal texts come from equal byte strings.\<close>

lemma hexEncode_inj: "hexEncode bs = hexEncode cs \<Longrightarrow> bs = cs"
proof (induction bs arbitrary: cs)
  case Nil
  then show ?case by (cases cs) (simp_all add: hexEncode_Nil hexEncode_Cons)
next
  case (Cons b bs)
  then obtain c cs' where cs: "cs = c # cs'"
    by (cases cs) (auto simp: hexEncode_Nil hexEncode_Cons)
  with Cons.prems have "b = c" and "hexEncode bs = hexEncode cs'"
    by (auto simp: hexEncode_Cons intro: byte_digits_inj)
  with Cons.IH cs show ?case by simp
qed

lemma lowerChar_hexDigit: "n < 16 \<Longrightarrow> lowerChar (hexDigit n) = hexDigit n"
  by (simp add: lowerChar_def hexDigit_code Let_def)

text \<open>The encoder writes lower-case digits only.\<close>

lemma toLowerCase_hexEncode: "toLowerCase (hexEncode bs) = hexEncode bs"
proof (induction bs)
  case Nil
  show ?case by (simp add: toLowerCase_def hexEncode_Nil)
next
  case (Cons b bs)
  have "unat b < 256" using unsigned_less [of b] by simp
  then have "unat b div 16 < 16" "unat b mod 16 < 16" by simp_all
  then show ?case using Cons by (simp add: toLowerCase_def lowerChar_hexDigit hexEncode_Cons)
qed

lemma replicate_numeral: "replicate (numeral k) x = x # replicate (pred_numeral k) x"
  by (simp add: numeral_eq_Suc)

lemma chunks_numeral: "chunks (numeral k) n xs = take n xs # chunks (pred_numeral k) n (drop n xs)"
  by (simp add: numeral_eq_Suc)

lemmas sha256_eval =
  add32_def rotr_def shr_def not32_def Ch_def Maj_def bsig0_def bsig1_def ssig0_def ssig1_def
  K256_def H0_def word_bytes_def len_bytes_def pad_def next_w_def compress_def sha256_def
  hexDigit_def hexEncode_def unhex_def replicate_numeral chunks_numeral char_of_eq_iff

text \<open>
  The hash of the tests' preimage, computed by rewriting with the definitions: one block
  of sixty-four rounds.
\<close>

lemma sha256_PREIMAGE: "hexEncode (sha256 (hexDecode PREIMAGE_HEX)) = PAYMENT_HASH"
  unfolding PREIMAGE_HEX_def PAYMENT_HASH_def by (simp add: sha256_eval)

lemma lower_PAYMENT_HASH_UPPER: "toLowerCase PAYMENT_HASH_UPPER = PAYMENT_HASH"
  by (simp add: toLowerCase_def lowerChar_def char_of_eq_iff PAYMENT_HASH_def
      PAYMENT_HASH_UPPER_def)

section \<open>The verifier\<close>

text \<open>
  Claim C1, as the code has it. A secret always verifies against its own commitment.
  For two secrets, \<open>verify(s1, commit(s2))\<close> holds exactly when the byte strings they
  decode to have the same SHA-256 hash; that the texts \<open>s1\<close> and \<open>s2\<close> differ does not
  make it false.
\<close>

theorem commitment_soundness:
  "verifyPreimage s (commit s) \<and>
   verifyPreimage s1 (commit s2) = (sha256 (hexDecode s1) = sha256 (hexDecode s2))"
  by (auto simp: verifyPreimage_def commit_def dest: hexEncode_inj)

text \<open>
  Claim C1 as stated fails: \<open>AA\<close> and \<open>aa\<close> are distinct secrets, both decode to the one
  byte \<open>0xaa\<close>, and each verifies against the commitment of the other.
\<close>

theorem commitment_soundness_counterexample:
  "''AA'' \<noteq> ''aa'' \<and> verifyPreimage ''AA'' (commit ''aa'')"
  by (simp add: verifyPreimage_def commit_def unhex_def)

text \<open>
  Claim C4, as the code has it. \<open>verify(s, H)\<close> holds exactly when \<open>H\<close> is, character for
  character, the lower-case hexadecimal text of the hash; no case is normalised, so any
  \<open>H\<close> that lower-casing would change is rejected.
\<close>

theorem verify_exact:
  "verifyPreimage s H = (H = commit s) \<and>
   (toLowerCase H \<noteq> H \<longrightarrow> \<not> verifyPreimage s H)"
  using toLowerCase_hexEncode [of "sha256 (hexDecode s)"]
  by (auto simp: verifyPreimage_def commit_def)

theorem verify_exact_witness:
  "toLowerCase PAYMENT_HASH_UPPER \<noteq> PAYMENT_HASH_UPPER
   \<and> \<not> verifyPreimage PREIMAGE_HEX PAYMENT_HASH_UPPER"
proof -
  have "PAYMENT_HASH \<noteq> PAYMENT_HASH_UPPER"
    by (simp add: PAYMENT_HASH_def PAYMENT_HASH_UPPER_def)
  then have "toLowerCase PAYMENT_HASH_UPPER \<noteq> PAYMENT_HASH_UPPER"
    by (simp add: lower_PAYMENT_HASH_UPPER)
  with verify_exact [of PREIMAGE_HEX PAYMENT_HASH_UPPER]
  show ?thesis by blast
qed

text \<open>
  Claim C4 as stated fails at the tests' preimage: the upper-case text of its hash
  equals the commitment once both are lower-cased, and the verifier rejects it.
\<close>

theorem verify_case_normalized_counterexample:
  "toLowerCase PAYMENT_HASH_UPPER = toLowerCase (commit PREIMAGE_HEX)
   \<and> \<not> verifyPreimage PREIMAGE_HEX PAYMENT_HASH_UPPER"
proof -
  have c: "commit PREIMAGE_HEX = PAYMENT_HASH"
    by (simp add: commit_def sha256_PREIMAGE)
  have l: "toLowerCase PAYMENT_HASH = PAYMENT_HASH"
    using toLowerCase_hexEncode [of "sha256 (hexDecode PREIMAGE_HEX)"]
    by (simp add: sha256_PREIMAGE)
  have n: "PAYMENT_HASH \<noteq> PAYMENT_HASH_UPPER"
    by (simp add: PAYMENT_HASH_def PAYMENT_HASH_UPPER_def)
  show ?thesis
    using c l n by (simp add: verifyPreimage_def sha256_PREIMAGE lower_PAYMENT_HASH_UPPER)
qed


section \<open>The middleware\<close>

lemma toLowerCase_append: "toLowerCase (a @ b) = toLowerCase a @ toLowerCase b"
  by (simp add: toLowerCase_def)

lemma length_toLowerCase: "length (toLowerCase s) = length s"
  by (simp add: toLowerCase_def)

text \<open>
  Splitting at the last colon: in \<open>xs @ ':' # ys\<close> with no colon in \<open>ys\<close> the index found
  is the length of \<open>xs\<close>.
\<close>

lemma lastIndexFrom_absent: "c \<notin> set ys \<Longrightarrow> lastIndexFrom i found ys c = found"
  by (induction ys arbitrary: i) auto

lemma lastIndexFrom_append:
  "lastIndexFrom i found (xs @ zs) c = lastIndexFrom (i + length xs) (lastIndexFrom i found xs c) zs c"
  by (induction xs arbitrary: i found) auto

lemma lastIndexOf_split:
  "c \<notin> set ys \<Longrightarrow> lastIndexOf (xs @ c # ys) c = int (length xs)"
  by (simp add: lastIndexOf_def lastIndexFrom_append lastIndexFrom_absent)

text \<open>
  A macaroon parses exactly when its text decodes to a value that is not null and whose
  \<^verbatim>\<open>version\<close> and \<^verbatim>\<open>paymentHash\<close> are truthy, of whatever type.
\<close>

lemma parseServiceMacaroon_Some_iff:
  "parseServiceMacaroon rt mac = Some d \<longleftrightarrow>
     macaroon_decode rt mac = Some d \<and> d \<noteq> JNull
     \<and> truthy (field d ''version'') \<and> truthy (field d ''paymentHash'')"
  by (cases d) (auto simp: parseServiceMacaroon_def getField_def split: option.splits json.splits)


text \<open>
  The block throws when the node's answer is null, and when \<^verbatim>\<open>Buffer.from\<close> refuses its
  \<^verbatim>\<open>r_hash\<close>, as it does for an answer without one.
\<close>

lemma issueChallenge_bad_answer:
  assumes "(case priceFn config of Some f \<Rightarrow> f rq | None \<Rightarrow> Inr (price config)) = Inr finalPrice"
    and "createInvoice rt (restHost (node config)) (macaroon (node config)) finalPrice
           (memoFor config rq) p = (Inr lnd, p1)"
    and "lnd = JNull \<or> (\<exists>e. bufferFromBase64 rt (field lnd ''r_hash'') = Inl e)"
  shows "\<exists>e. issueChallenge rt config rq rs p = (Inl e, p1)"
  using assms
  by (auto simp: issueChallenge_def Let_def getField_def
      split: json.splits prod.splits sum.splits)

lemma bufferFromBase64_undefined: "bufferFromBase64 rt None = Inl (buffer_type_error rt None)"
  by (simp add: bufferFromBase64_def)

text \<open>
  Without the scheme the handler is the \<^verbatim>\<open>try\<close> block and its \<^verbatim>\<open>catch\<close>.
\<close>

lemma middleware_no_scheme:
  assumes "\<not> hasL402Scheme (authorization (req ex))"
  shows "middleware rt config ex p =
     (case issueChallenge rt config (req ex) (res ex) p of
        (Inr rs, p1) \<Rightarrow> (ex\<lparr>res := rs\<rparr>, p1)
      | (Inl e, p1) \<Rightarrow>
          (ex\<lparr>res := (res ex)\<lparr>statusCode := 500,
                               resBody := Some (ErrorBody ''Payment gateway error'')\<rparr>\<rparr>,
           p1\<lparr>console_log := console_log p1 @ [''L402 middleware error: '' @ errMessage e]\<rparr>))"
  using assms
  by (auto simp: middleware_def hasL402Scheme_def Let_def split: option.splits)


text \<open>
  A header that carries the scheme, a macaroon that parses with a string payment hash,
  and a preimage that verifies against it: the handler attaches the proof and calls
  \<^verbatim>\<open>next()\<close>.
\<close>

lemma middleware_accepts:
  assumes "authorization (req ex) = Some (scheme @ mac @ CHR '':'' # pre)"
    and "toLowerCase scheme = ''l402 ''"
    and "mac \<noteq> []"
    and "CHR '':'' \<notin> set pre"
    and "parseServiceMacaroon rt mac = Some d"
    and "field d ''paymentHash'' = Some (JStr h)"
    and "verifyPreimage pre h"
  shows "middleware rt config ex p =
           (ex\<lparr>req := (req ex)\<lparr>req_l402 := Some \<lparr>paid = True, preimage = pre, paymentHash = h,
                                                  service = field d ''service''\<rparr>\<rparr>,
               nextCalls := Suc (nextCalls ex)\<rparr>, p)"
proof -
  have len: "length scheme = 5"
    using assms(2) length_toLowerCase [of scheme] by simp
  have sw: "startsWith (toLowerCase (scheme @ mac @ CHR '':'' # pre)) ''l402 ''"
    using len assms(2) by (simp add: startsWith_def toLowerCase_append length_toLowerCase)
  have tok: "drop 5 (scheme @ mac @ CHR '':'' # pre) = mac @ CHR '':'' # pre"
    using len by simp
  have idx: "lastIndexOf (mac @ CHR '':'' # pre) CHR '':'' = int (length mac)"
    using assms(4) by (rule lastIndexOf_split)
  have pos: "0 < int (length mac)" using assms(3) by simp
  have nxt: "nat (int (length mac) + 1) = Suc (length mac)" by simp
  show ?thesis
    using assms(1) assms(3) assms(5-7) sw len
    by (simp add: middleware_def Let_def tok idx pos nxt)
qed

text \<open>
  The scripted platform at the values of the tests.
\<close>

lemma hex_PAYMENT_HASH: "hexEncode (hexDecode PAYMENT_HASH) = PAYMENT_HASH"
  by (simp add: PAYMENT_HASH_def hexEncode_def unhex_def hexDigit_def char_of_eq_iff)

lemma hex_PREIMAGE_HEX: "hexEncode (hexDecode PREIMAGE_HEX) = PREIMAGE_HEX"
  by (simp add: PREIMAGE_HEX_def hexEncode_def unhex_def hexDigit_def char_of_eq_iff)

lemma b64_distinct: "PAYMENT_HASH_B64 \<noteq> PREIMAGE_B64"
  by (simp add: PAYMENT_HASH_B64_def PREIMAGE_B64_def)

lemma macaroons_distinct: "MACAROON_X_B64 \<noteq> MACAROON_B64"
  by (simp add: MACAROON_X_B64_def MACAROON_B64_def)

lemma parse_MACAROON_B64: "parseServiceMacaroon scripted MACAROON_B64 = Some MACAROON_JSON"
  by (simp add: parseServiceMacaroon_Some_iff scripted_def MACAROON_JSON_def PAYMENT_HASH_def)

lemma parse_MACAROON_X_B64: "parseServiceMacaroon scripted MACAROON_X_B64 = Some MACAROON_X_JSON"
  by (simp add: parseServiceMacaroon_Some_iff scripted_def MACAROON_X_JSON_def PAYMENT_HASH_def
      macaroons_distinct)

lemma verify_PREIMAGE: "verifyPreimage PREIMAGE_HEX PAYMENT_HASH"
  by (simp add: verifyPreimage_def sha256_PREIMAGE)

lemma issue_scripted:
  "issueChallenge scripted (testConfig amount) (req (mockReq None)) (res (mockReq None))
     (freshProcess [invoiceAnswer])
   = (Inr \<lparr>statusCode = 402,
           resHeaders = [(''WWW-Authenticate'',
              ''L402 macaroon=\"'' @ MACAROON_B64 @ ''\", invoice=\"lnbc100n1fake_invoice\"'')],
           resBody = Some (ChallengeBody
              \<lparr>code = 402, message = ''Payment Required'',
               invoice = Some (JStr ''lnbc100n1fake_invoice''),
               ch_macaroon = MACAROON_B64, ch_price = amount,
               ch_description = ''L402 access: GET /api/test''\<rparr>)\<rparr>,
      \<lparr>NODE_TLS_REJECT_UNAUTHORIZED = None,
       fetch_log = [\<lparr>call_url = ''https://localhost:8082/v1/invoices'',
                     call_init = \<lparr>init_method = Some ''POST'',
                        init_headers = [(''Grpc-Metadata-macaroon'', ''deadbeef''),
                                        (''Content-Type'', ''application/json'')],
                        init_body = Some (json_stringify scripted
                           [(''value'', Some (JStr (number_toString scripted amount))),
                            (''memo'', Some (JStr ''L402 access: GET /api/test''))])\<rparr>,
                     call_tls = None\<rparr>],
       console_log = [], world = []\<rparr>)"
  by (simp add: issueChallenge_def createInvoice_def fetch_def testConfig_def testNode_def
      mockReq_def freshProcess_def invoiceAnswer_def createServiceMacaroon_def Let_def
      memoFor_def getField_def bufferFromBase64_def toStr_def
      hex_PAYMENT_HASH b64_distinct scripted_def MACAROON_DATA_def)




text \<open>
  The same status 500 answers a node whose answer has no \<^verbatim>\<open>r_hash\<close>: decoding it throws
  inside the \<^verbatim>\<open>try\<close> block.
\<close>

lemma missing_r_hash_500:
  "fst (middleware scripted (testConfig (Finite 100)) (mockReq None)
          (freshProcess [invoiceAnswerNoHash]))
   = (mockReq None)\<lparr>res := \<lparr>statusCode = 500, resHeaders = [],
                             resBody = Some (ErrorBody ''Payment gateway error'')\<rparr>\<rparr>"
  by (simp add: middleware_def issueChallenge_def createInvoice_def fetch_def testConfig_def
      testNode_def mockReq_def freshProcess_def Let_def memoFor_def getField_def
      bufferFromBase64_def invoiceAnswerNoHash_def scripted_def)

text \<open>
  Claim C7. A header made of the scheme in any letter case, a non-empty macaroon, a colon
  and a preimage without colon, whose macaroon parses (it decodes to a value with truthy
  \<^verbatim>\<open>version\<close> and \<^verbatim>\<open>paymentHash\<close>) with the string \<open>h\<close> as payment hash that the preimage
  verifies against, leads to exactly one call of \<^verbatim>\<open>next()\<close>; the proof attached to the
  request carries the preimage and the payment hash \<open>h\<close> of the decoded macaroon; the
  response and the process are untouched.
\<close>

theorem valid_credential_reaches_next:
  assumes "authorization (req ex) = Some (scheme @ mac @ CHR '':'' # pre)"
    and "toLowerCase scheme = ''l402 ''"
    and "mac \<noteq> []"
    and "CHR '':'' \<notin> set pre"
    and "parseServiceMacaroon rt mac = Some d"
    and "field d ''paymentHash'' = Some (JStr h)"
    and "verifyPreimage pre h"
  shows "middleware rt config ex p =
           (ex\<lparr>req := (req ex)\<lparr>req_l402 := Some \<lparr>paid = True, preimage = pre, paymentHash = h,
                                                  service = field d ''service''\<rparr>\<rparr>,
               nextCalls := Suc (nextCalls ex)\<rparr>, p)"
  using assms by (rule middleware_accepts)

text \<open>The header of the tests: their macaroon and their preimage.\<close>

theorem valid_credential_reaches_next_witness:
  "middleware scripted (testConfig (Finite 100))
     (mockReq (Some (''L402 '' @ MACAROON_B64 @ CHR '':'' # PREIMAGE_HEX))) (freshProcess [])
   = ((mockReq (Some (''L402 '' @ MACAROON_B64 @ CHR '':'' # PREIMAGE_HEX)))
        \<lparr>req := \<lparr>authorization = Some (''L402 '' @ MACAROON_B64 @ CHR '':'' # PREIMAGE_HEX),
                  req_method = ''GET'', path = ''/api/test'',
                  req_l402 = Some \<lparr>paid = True, preimage = PREIMAGE_HEX,
                                    paymentHash = PAYMENT_HASH,
                                    service = Some (JStr ''/api/test'')\<rparr>\<rparr>,
          nextCalls := 1\<rparr>, freshProcess [])"
proof -
  have a: "authorization (req (mockReq (Some (''L402 '' @ MACAROON_B64 @ CHR '':'' # PREIMAGE_HEX))))
           = Some (''L402 '' @ MACAROON_B64 @ CHR '':'' # PREIMAGE_HEX)"
    by (simp add: mockReq_def)
  have s: "toLowerCase ''L402 '' = ''l402 ''"
    by (simp add: toLowerCase_def lowerChar_def char_of_eq_iff)
  have m: "MACAROON_B64 \<noteq> []" by (simp add: MACAROON_B64_def)
  have c: "CHR '':'' \<notin> set PREIMAGE_HEX" by (simp add: PREIMAGE_HEX_def)
  have h: "field MACAROON_JSON ''paymentHash'' = Some (JStr PAYMENT_HASH)"
    by (simp add: MACAROON_JSON_def)
  from valid_credential_reaches_next [OF a s m c parse_MACAROON_B64 h verify_PREIMAGE,
      of "testConfig (Finite 100)" "freshProcess []"]
  show ?thesis by (simp add: mockReq_def MACAROON_JSON_def)
qed

text \<open>
  A macaroon whose version is the string \<open>x\<close> is accepted like any other with a truthy
  version.
\<close>

lemma truthy_version_accepted:
  "nextCalls (fst (middleware scripted (testConfig (Finite 100))
     (mockReq (Some (''L402 '' @ MACAROON_X_B64 @ CHR '':'' # PREIMAGE_HEX))) (freshProcess [])))
   = 1"
proof -
  have a: "authorization (req (mockReq (Some (''L402 '' @ MACAROON_X_B64 @ CHR '':'' # PREIMAGE_HEX))))
           = Some (''L402 '' @ MACAROON_X_B64 @ CHR '':'' # PREIMAGE_HEX)"
    by (simp add: mockReq_def)
  have s: "toLowerCase ''L402 '' = ''l402 ''"
    by (simp add: toLowerCase_def lowerChar_def char_of_eq_iff)
  have m: "MACAROON_X_B64 \<noteq> []" by (simp add: MACAROON_X_B64_def)
  have c: "CHR '':'' \<notin> set PREIMAGE_HEX" by (simp add: PREIMAGE_HEX_def)
  have h: "field MACAROON_X_JSON ''paymentHash'' = Some (JStr PAYMENT_HASH)"
    by (simp add: MACAROON_X_JSON_def)
  from middleware_accepts [OF a s m c parse_MACAROON_X_B64 h verify_PREIMAGE,
      of "testConfig (Finite 100)" "freshProcess []"]
  show ?thesis by (simp add: mockReq_def)
qed

text \<open>
  Claim C2 does not hold of the code: the price is passed on without any check. With the
  configured price 0, no authorization header and a node that creates the invoice, the
  handler answers with status 402 and a challenge body whose price is 0, where the claim
  and the repository's test \<open>returns 500 for price of 0\<close> require status 500.
\<close>

theorem price_zero_challenge_issued:
  "fst (middleware scripted (testConfig (Finite 0)) (mockReq None) (freshProcess [invoiceAnswer]))
   = (mockReq None)\<lparr>res := \<lparr>statusCode = 402,
           resHeaders = [(''WWW-Authenticate'',
              ''L402 macaroon=\"'' @ MACAROON_B64 @ ''\", invoice=\"lnbc100n1fake_invoice\"'')],
           resBody = Some (ChallengeBody
              \<lparr>code = 402, message = ''Payment Required'',
               invoice = Some (JStr ''lnbc100n1fake_invoice''),
               ch_macaroon = MACAROON_B64, ch_price = Finite 0,
               ch_description = ''L402 access: GET /api/test''\<rparr>)\<rparr>\<rparr>"
proof -
  have "\<not> hasL402Scheme (authorization (req (mockReq None)))"
    by (simp add: hasL402Scheme_def mockReq_def)
  then show ?thesis
    by (simp add: middleware_no_scheme issue_scripted)
qed

text \<open>
  \<^verbatim>\<open>lndFetch\<close> puts the environment variable back, and so the client, which reaches
  the node through it, leaves the variable as it found it.
\<close>

lemma lndFetch_restores_env:
  "NODE_TLS_REJECT_UNAUTHORIZED (snd (lndFetch rt url init skip p)) = NODE_TLS_REJECT_UNAUTHORIZED p"
  by (auto simp: lndFetch_def fetch_def Let_def split: prod.splits option.splits)

lemma fetch_env:
  "fetch rt url init p = (a, p') \<Longrightarrow>
   NODE_TLS_REJECT_UNAUTHORIZED p' = NODE_TLS_REJECT_UNAUTHORIZED p"
  by (auto simp: fetch_def split: prod.splits)

lemma lndFetch_env:
  "lndFetch rt url init skip p = (a, p') \<Longrightarrow>
   NODE_TLS_REJECT_UNAUTHORIZED p' = NODE_TLS_REJECT_UNAUTHORIZED p"
  using lndFetch_restores_env [of rt url init skip p] by simp

lemma payInvoice_env:
  "payInvoice rt h m i s p = (a, p') \<Longrightarrow>
   NODE_TLS_REJECT_UNAUTHORIZED p' = NODE_TLS_REJECT_UNAUTHORIZED p"
  by (auto simp: payInvoice_def split: prod.splits sum.splits if_splits dest: lndFetch_env)

lemma l402Fetch_tls_env:
  "NODE_TLS_REJECT_UNAUTHORIZED (snd (snd (l402Fetch rt c url options p)))
   = NODE_TLS_REJECT_UNAUTHORIZED p"
  by (auto simp: l402Fetch_def Let_def split: prod.splits sum.splits
      dest!: fetch_env payInvoice_env)

text \<open>
  Claim C3 does not hold of the middleware: with \<^verbatim>\<open>skipTlsVerify\<close> set, \<^verbatim>\<open>l402(config)\<close>
  writes \<open>'0'\<close> to the variable when the route is set up, the invoice is requested with a
  plain \<^verbatim>\<open>fetch\<close>, and the variable still holds \<open>'0'\<close> after the request has been
  handled. The repository's test \<open>does not set NODE_TLS_REJECT_UNAUTHORIZED globally on
  construction\<close> requires it to be unset.
\<close>

theorem l402_leaves_tls_disabled:
  "NODE_TLS_REJECT_UNAUTHORIZED
     (l402 ((testConfig (Finite 100))\<lparr>node := testNode\<lparr>skipTlsVerify := Some True\<rparr>\<rparr>)
        (freshProcess [invoiceAnswer])) = Some ''0''
   \<and> NODE_TLS_REJECT_UNAUTHORIZED
       (snd (middleware scripted
               ((testConfig (Finite 100))\<lparr>node := testNode\<lparr>skipTlsVerify := Some True\<rparr>\<rparr>)
               (mockReq None)
               (l402 ((testConfig (Finite 100))\<lparr>node := testNode\<lparr>skipTlsVerify := Some True\<rparr>\<rparr>)
                  (freshProcess [invoiceAnswer])))) = Some ''0''"
  by (simp add: l402_def middleware_def issueChallenge_def createInvoice_def fetch_def
      testConfig_def testNode_def mockReq_def freshProcess_def invoiceAnswer_def Let_def
      memoFor_def getField_def bufferFromBase64_def toStr_def scripted_def)


section \<open>The client\<close>

lemma fetch_log_step:
  assumes "fetch rt url init p = (a, p1)"
  shows "fetch_log p1 = fetch_log p @ [\<lparr>call_url = url, call_init = init,
                                        call_tls = NODE_TLS_REJECT_UNAUTHORIZED p\<rparr>]
         \<and> NODE_TLS_REJECT_UNAUTHORIZED p1 = NODE_TLS_REJECT_UNAUTHORIZED p
         \<and> console_log p1 = console_log p"
  using assms by (auto simp: fetch_def split: prod.splits)

text \<open>A price that is a number is compared as it is and shown as the platform shows it.\<close>

lemma greaterThan_number: "greaterThan rt (Some (JNum n)) m = Inr (num_gt n m)"
  by (simp add: greaterThan_def toNumber_def)

lemma toStr_number: "toStr rt (Some (JNum n)) = Inr (number_toString rt n)"
  by (simp add: toStr_def)

lemma toStr_string: "toStr rt (Some (JStr s)) = Inr s"
  by (simp add: toStr_def)

text \<open>
  The scripted client at the values of the tests.
\<close>

lemma show_50000: "number_toString scripted (Finite 50000) = ''50000''"
  by (simp add: scripted_def showNat.simps char_of_eq_iff)

lemma show_1000: "number_toString scripted (Finite 1000) = ''1000''"
  by (simp add: scripted_def showNat.simps char_of_eq_iff)

lemma first_402:
  "fetch scripted testUrl (emptyInit\<lparr>init_headers := requestHeaders (testClient limit) testUrl emptyInit\<rparr>)
     (freshProcess (make402Response amount # rest))
   = (make402Response amount,
      \<lparr>NODE_TLS_REJECT_UNAUTHORIZED = None, fetch_log = [targetCall []], console_log = [],
       world = rest\<rparr>)"
  by (simp add: fetch_def scripted_def freshProcess_def requestHeaders_def testClient_def
      createL402Client_def emptyInit_def targetCall_def)

lemma paid_run:
  "l402Fetch scripted (testClient None) testUrl emptyInit
     (freshProcess (make402Response (Finite 100) # makeLndPaymentResponse
                    # makeResponse st body # rest))
   = (Inr \<lparr>data = JStr body, r_paid = True, r_price = Some (JNum (Finite 100)),
           r_preimage = Some PREIMAGE_HEX\<rparr>,
      (testClient None)\<lparr>tokenCache := [(testUrl, L402_TOKEN)]\<rparr>,
      \<lparr>NODE_TLS_REJECT_UNAUTHORIZED = None,
       fetch_log = [targetCall [], paymentCall, targetCall [(''Authorization'', L402_TOKEN)]],
       console_log = [], world = rest\<rparr>)"
  by (simp add: l402Fetch_def payInvoice_def lndFetch_def paymentInit_def fetch_def Let_def
      getField_def greaterThan_def toNumber_def toStr_def bufferFromBase64_def
      requestHeaders_def testClient_def createL402Client_def emptyInit_def targetCall_def
      paymentCall_def freshProcess_def make402Response_def makeLndPaymentResponse_def
      makeResponse_def testNode_def L402_TOKEN_def hex_PREIMAGE_HEX scripted_def)

text \<open>
  Claim C5. When the first response is a challenge whose price exceeds the ceiling, the
  fetch ends with the error whose message gives the price and the ceiling; the cache is
  as before, and the process has made the one call to the target and no other, so no
  payment was attempted. A client made without a ceiling has the ceiling 10000. The price
  is the \<^verbatim>\<open>price\<close> property of the challenge: a number \<open>n\<close> exceeds the ceiling \<open>m\<close> when
  \<open>num_gt n m\<close> (lemma \<open>greaterThan_number\<close>) and is shown as \<open>number_toString\<close> shows it
  (lemma \<open>toStr_number\<close>).
\<close>

theorem spend_ceiling_abort:
  assumes "fetch rt url (options\<lparr>init_headers := requestHeaders c url options\<rparr>) p = (Inr r, p1)"
    and "status r = 402"
    and "json r = Inr challenge"
    and "getField rt challenge ''price'' = Inr price'"
    and "greaterThan rt price' (cl_maxAutoPaySats c) = Inr True"
    and "toStr rt price' = Inr shown"
  shows "l402Fetch rt c url options p =
           (Inl (Error (''L402 price ('' @ shown
                        @ '' sats) exceeds maxAutoPaySats (''
                        @ number_toString rt (cl_maxAutoPaySats c) @ ''). ''
                        @ ''Increase the limit or pay manually.'')), c, p1)
       \<and> fetch_log p1 = fetch_log p @
            [\<lparr>call_url = url,
              call_init = options\<lparr>init_headers := requestHeaders c url options\<rparr>,
              call_tls = NODE_TLS_REJECT_UNAUTHORIZED p\<rparr>]
       \<and> cl_maxAutoPaySats (createL402Client \<lparr>client_node = n, maxAutoPaySats = None\<rparr>)
           = Finite 10000"
  using assms fetch_log_step [OF assms(1)]
  by (simp add: l402Fetch_def Let_def createL402Client_def)

text \<open>Ceiling 1000 and price 50000.\<close>

theorem spend_ceiling_abort_witness:
  "l402Fetch scripted (testClient (Some (Finite 1000))) testUrl emptyInit
     (freshProcess [make402Response (Finite 50000)])
   = (Inl (Error ''L402 price (50000 sats) exceeds maxAutoPaySats (1000). Increase the limit or pay manually.''),
      testClient (Some (Finite 1000)),
      \<lparr>NODE_TLS_REJECT_UNAUTHORIZED = None, fetch_log = [targetCall []], console_log = [],
       world = []\<rparr>)"
proof -
  let ?ch = "JObj [(''code'', JNum (Finite 402)), (''message'', JStr ''Payment Required''),
                   (''invoice'', JStr ''lnbc100n1fake_invoice''),
                   (''macaroon'', JStr MACAROON_B64), (''price'', JNum (Finite 50000)),
                   (''description'', JStr ''L402 access'')]"
  let ?r = "\<lparr>ok = False, status = 402, statusText = ''Payment Required'', json = Inr ?ch\<rparr>"
  have f: "fetch scripted testUrl
             (emptyInit\<lparr>init_headers := requestHeaders (testClient (Some (Finite 1000))) testUrl emptyInit\<rparr>)
             (freshProcess [make402Response (Finite 50000)])
           = (Inr ?r, \<lparr>NODE_TLS_REJECT_UNAUTHORIZED = None, fetch_log = [targetCall []],
                       console_log = [], world = []\<rparr>)"
    using first_402 [of "Some (Finite 1000)" "Finite 50000" "[]"]
    by (simp add: make402Response_def)
  have s: "status ?r = 402" by simp
  have j: "json ?r = Inr ?ch" by simp
  have pr: "getField scripted ?ch ''price'' = Inr (Some (JNum (Finite 50000)))"
    by (simp add: getField_def)
  have m: "cl_maxAutoPaySats (testClient (Some (Finite 1000))) = Finite 1000"
    by (simp add: testClient_def createL402Client_def)
  have g: "greaterThan scripted (Some (JNum (Finite 50000)))
             (cl_maxAutoPaySats (testClient (Some (Finite 1000)))) = Inr True"
    by (simp add: m greaterThan_number)
  have t: "toStr scripted (Some (JNum (Finite 50000))) = Inr ''50000''"
    by (simp add: toStr_number show_50000)
  from spend_ceiling_abort [OF f s j pr g t]
  show ?thesis by (simp add: m show_1000)
qed

text \<open>A result with \<^verbatim>\<open>paid: true\<close> means the token is in the cache under the URL.\<close>

lemma paid_cached:
  assumes "l402Fetch rt c url options p = (Inr r1, c1, p1)" and "r_paid r1"
  shows "\<exists>mac pre. map_of (tokenCache c1) url = Some (''L402 '' @ mac @ '':'' @ pre)
                   \<and> r_preimage r1 = Some pre"
  using assms
  by (auto simp: l402Fetch_def Let_def update_conv'
      split: prod.splits sum.splits if_splits)

lemma cached_requestHeaders:
  "map_of (tokenCache c) url = Some (''L402 '' @ rest) \<Longrightarrow>
   requestHeaders c url options = AList.update ''Authorization'' (''L402 '' @ rest) (init_headers options)"
  by (simp add: requestHeaders_def)

lemma l402Fetch_not_402:
  assumes "fetch rt url (options\<lparr>init_headers := requestHeaders c url options\<rparr>) p = (Inr r, p1)"
    and "status r \<noteq> 402"
  shows "l402Fetch rt c url options p =
           (case json r of
              Inl e \<Rightarrow> (Inl e, c, p1)
            | Inr d \<Rightarrow> (Inr \<lparr>data = d, r_paid = False, r_price = None, r_preimage = None\<rparr>, c, p1))"
  using assms by (simp add: l402Fetch_def Let_def)

text \<open>
  Claim C8. After a fetch of \<open>url\<close> that returned with \<^verbatim>\<open>paid: true\<close>, the cache holds
  the token \<open>L402 macaroon:preimage\<close> under \<open>url\<close>. A second fetch of \<open>url\<close>, with any
  options and from any process state, whose response is not status 402 makes exactly one
  call, to \<open>url\<close>, with that token as the \<^verbatim>\<open>Authorization\<close> header, and leaves the
  cache as it is; no call to the node is made.
\<close>

theorem cached_credential_reused:
  assumes "l402Fetch rt c url options p = (Inr r1, c1, p1)"
    and "r_paid r1"
    and "fetch rt url (options2\<lparr>init_headers := requestHeaders c1 url options2\<rparr>) q = (Inr r2, q1)"
    and "status r2 \<noteq> 402"
  shows "\<exists>mac pre.
           map_of (tokenCache c1) url = Some (''L402 '' @ mac @ '':'' @ pre)
         \<and> r_preimage r1 = Some pre
         \<and> snd (l402Fetch rt c1 url options2 q) = (c1, q1)
         \<and> fetch_log q1 = fetch_log q @
              [\<lparr>call_url = url,
                call_init = options2\<lparr>init_headers :=
                   AList.update ''Authorization'' (''L402 '' @ mac @ '':'' @ pre)
                     (init_headers options2)\<rparr>,
                call_tls = NODE_TLS_REJECT_UNAUTHORIZED q\<rparr>]"
proof -
  from paid_cached [OF assms(1,2)] obtain mac pre
    where tok: "map_of (tokenCache c1) url = Some (''L402 '' @ mac @ '':'' @ pre)"
      and pre: "r_preimage r1 = Some pre" by blast
  have hdr: "requestHeaders c1 url options2 =
      AList.update ''Authorization'' (''L402 '' @ mac @ '':'' @ pre) (init_headers options2)"
    using tok by (rule cached_requestHeaders)
  have run: "snd (l402Fetch rt c1 url options2 q) = (c1, q1)"
    using l402Fetch_not_402 [OF assms(3,4)] by (simp split: sum.splits)
  have log: "fetch_log q1 = fetch_log q @
              [\<lparr>call_url = url,
                call_init = options2\<lparr>init_headers :=
                   AList.update ''Authorization'' (''L402 '' @ mac @ '':'' @ pre)
                     (init_headers options2)\<rparr>,
                call_tls = NODE_TLS_REJECT_UNAUTHORIZED q\<rparr>]"
    using fetch_log_step [OF assms(3)] hdr by simp
  from tok pre run log show ?thesis by blast
qed

text \<open>The second fetch of the tests' caching scenario.\<close>

theorem cached_credential_reused_witness:
  "snd (l402Fetch scripted ((testClient None)\<lparr>tokenCache := [(testUrl, L402_TOKEN)]\<rparr>)
          testUrl emptyInit
          \<lparr>NODE_TLS_REJECT_UNAUTHORIZED = None,
           fetch_log = [targetCall [], paymentCall, targetCall [(''Authorization'', L402_TOKEN)]],
           console_log = [], world = [makeResponse 200 ''second'']\<rparr>)
   = ((testClient None)\<lparr>tokenCache := [(testUrl, L402_TOKEN)]\<rparr>,
      \<lparr>NODE_TLS_REJECT_UNAUTHORIZED = None,
       fetch_log = [targetCall [], paymentCall, targetCall [(''Authorization'', L402_TOKEN)],
                    targetCall [(''Authorization'', L402_TOKEN)]],
       console_log = [], world = []\<rparr>)"
proof -
  let ?c1 = "(testClient None)\<lparr>tokenCache := [(testUrl, L402_TOKEN)]\<rparr>"
  let ?p1 = "\<lparr>NODE_TLS_REJECT_UNAUTHORIZED = None,
           fetch_log = [targetCall [], paymentCall, targetCall [(''Authorization'', L402_TOKEN)]],
           console_log = [], world = [makeResponse 200 ''second'']\<rparr>"
  let ?r1 = "\<lparr>data = JStr ''first'', r_paid = True, r_price = Some (JNum (Finite 100)),
              r_preimage = Some PREIMAGE_HEX\<rparr>"
  let ?r2 = "\<lparr>ok = True, status = 200, statusText = [], json = Inr (JStr ''second'')\<rparr>"
  let ?q1 = "\<lparr>NODE_TLS_REJECT_UNAUTHORIZED = None,
       fetch_log = [targetCall [], paymentCall, targetCall [(''Authorization'', L402_TOKEN)],
                    targetCall [(''Authorization'', L402_TOKEN)]],
       console_log = [], world = []\<rparr>"
  have run1: "l402Fetch scripted (testClient None) testUrl emptyInit
                (freshProcess [make402Response (Finite 100), makeLndPaymentResponse,
                               makeResponse 200 ''first'', makeResponse 200 ''second''])
              = (Inr ?r1, ?c1, ?p1)"
    by (rule paid_run)
  have paid: "r_paid ?r1" by simp
  have t: "L402_TOKEN \<noteq> []" by (simp add: L402_TOKEN_def)
  have f2: "fetch scripted testUrl (emptyInit\<lparr>init_headers := requestHeaders ?c1 testUrl emptyInit\<rparr>) ?p1
            = (Inr ?r2, ?q1)"
    using t by (simp add: fetch_def scripted_def requestHeaders_def emptyInit_def targetCall_def
        makeResponse_def)
  have s2: "status ?r2 \<noteq> 402" by simp
  from cached_credential_reused [OF run1 paid f2 s2]
  show ?thesis by blast
qed





text \<open>
  A payment answer whose preimage \<^verbatim>\<open>Buffer.from\<close> refuses, as it does when there is
  none, ends the fetch with that error before the cache is written and before any retry.
\<close>

lemma l402Fetch_preimage_refused:
  assumes "fetch rt url (options\<lparr>init_headers := requestHeaders c url options\<rparr>) p = (Inr r, p1)"
    and "status r = 402"
    and "json r = Inr challenge"
    and "getField rt challenge ''price'' = Inr price'"
    and "greaterThan rt price' (cl_maxAutoPaySats c) = Inr False"
    and "payInvoice rt (restHost (cl_node c)) (macaroon (cl_node c))
           (field challenge ''invoice'') (skipTlsVerify (cl_node c)) p1 = (Inr payment, p2)"
    and "getField rt payment ''payment_error'' = Inr payment_error"
    and "\<not> truthy payment_error"
    and "bufferFromBase64 rt (field payment ''payment_preimage'') = Inl e"
  shows "l402Fetch rt c url options p = (Inl e, c, p2)"
  using assms by (simp add: l402Fetch_def Let_def)

lemma missing_preimage_throws:
  "l402Fetch scripted (testClient None) testUrl emptyInit
     (freshProcess [make402Response (Finite 100), paymentAnswerNoPreimage,
                    makeResponse 200 ''never requested''])
   = (Inl (Error ''The first argument must be of type string''),
      testClient None,
      \<lparr>NODE_TLS_REJECT_UNAUTHORIZED = None, fetch_log = [targetCall [], paymentCall],
       console_log = [], world = [makeResponse 200 ''never requested'']\<rparr>)"
  by (simp add: l402Fetch_def payInvoice_def lndFetch_def paymentInit_def fetch_def Let_def
      getField_def greaterThan_def toNumber_def toStr_def bufferFromBase64_def
      requestHeaders_def testClient_def createL402Client_def emptyInit_def targetCall_def
      paymentCall_def freshProcess_def make402Response_def paymentAnswerNoPreimage_def
      testNode_def scripted_def)

text \<open>
  Claim C10. After a payment that succeeded (the node's answer reports no error and
  holds a preimage that decodes), whatever response the retry gets, of any status, its
  parsed body is returned as the data with \<^verbatim>\<open>paid: true\<close>, the price of the challenge
  and the preimage, and the token is in the cache under the URL.
\<close>

theorem retry_returned_unchecked:
  assumes "fetch rt url (options\<lparr>init_headers := requestHeaders c url options\<rparr>) p = (Inr r, p1)"
    and "status r = 402"
    and "json r = Inr challenge"
    and "getField rt challenge ''price'' = Inr price'"
    and "greaterThan rt price' (cl_maxAutoPaySats c) = Inr False"
    and "payInvoice rt (restHost (cl_node c)) (macaroon (cl_node c))
           (field challenge ''invoice'') (skipTlsVerify (cl_node c)) p1 = (Inr payment, p2)"
    and "getField rt payment ''payment_error'' = Inr payment_error"
    and "\<not> truthy payment_error"
    and "bufferFromBase64 rt (field payment ''payment_preimage'') = Inr bytes"
    and "toStr rt (field challenge ''macaroon'') = Inr mac"
    and "tok = ''L402 '' @ mac @ '':'' @ hexEncode bytes"
    and "fetch rt url (options\<lparr>init_headers :=
             AList.update ''Authorization'' tok (requestHeaders c url options)\<rparr>) p2
         = (Inr authedRes, p3)"
    and "json authedRes = Inr d"
  shows "l402Fetch rt c url options p =
           (Inr \<lparr>data = d, r_paid = True, r_price = price',
                 r_preimage = Some (hexEncode bytes)\<rparr>,
            c\<lparr>tokenCache := AList.update url tok (tokenCache c)\<rparr>, p3)
       \<and> map_of (AList.update url tok (tokenCache c)) url = Some tok"
  using assms by (simp add: l402Fetch_def Let_def update_conv')

text \<open>A retry that is answered with status 401.\<close>

theorem retry_returned_unchecked_witness:
  "l402Fetch scripted (testClient None) testUrl emptyInit
     (freshProcess [make402Response (Finite 100), makeLndPaymentResponse,
                    makeResponse 401 ''Invalid L402 token''])
   = (Inr \<lparr>data = JStr ''Invalid L402 token'', r_paid = True,
           r_price = Some (JNum (Finite 100)), r_preimage = Some PREIMAGE_HEX\<rparr>,
      (testClient None)\<lparr>tokenCache := [(testUrl, L402_TOKEN)]\<rparr>,
      \<lparr>NODE_TLS_REJECT_UNAUTHORIZED = None,
       fetch_log = [targetCall [], paymentCall, targetCall [(''Authorization'', L402_TOKEN)]],
       console_log = [], world = []\<rparr>)"
proof -
  let ?c = "testClient None"
  let ?ch = "JObj [(''code'', JNum (Finite 402)), (''message'', JStr ''Payment Required''),
                   (''invoice'', JStr ''lnbc100n1fake_invoice''),
                   (''macaroon'', JStr MACAROON_B64), (''price'', JNum (Finite 100)),
                   (''description'', JStr ''L402 access'')]"
  let ?r = "\<lparr>ok = False, status = 402, statusText = ''Payment Required'', json = Inr ?ch\<rparr>"
  let ?p1 = "\<lparr>NODE_TLS_REJECT_UNAUTHORIZED = None, fetch_log = [targetCall []],
              console_log = [],
              world = [makeLndPaymentResponse, makeResponse 401 ''Invalid L402 token'']\<rparr>"
  let ?pay = "JObj [(''payment_error'', JStr []), (''payment_preimage'', JStr PREIMAGE_B64)]"
  let ?p2 = "\<lparr>NODE_TLS_REJECT_UNAUTHORIZED = None, fetch_log = [targetCall [], paymentCall],
              console_log = [], world = [makeResponse 401 ''Invalid L402 token'']\<rparr>"
  let ?a = "\<lparr>ok = False, status = 401, statusText = [],
             json = Inr (JStr ''Invalid L402 token'')\<rparr>"
  let ?p3 = "\<lparr>NODE_TLS_REJECT_UNAUTHORIZED = None,
       fetch_log = [targetCall [], paymentCall, targetCall [(''Authorization'', L402_TOKEN)]],
       console_log = [], world = []\<rparr>"
  have f: "fetch scripted testUrl (emptyInit\<lparr>init_headers := requestHeaders ?c testUrl emptyInit\<rparr>)
             (freshProcess [make402Response (Finite 100), makeLndPaymentResponse,
                            makeResponse 401 ''Invalid L402 token''])
           = (Inr ?r, ?p1)"
    using first_402 [of None "Finite 100"] by (simp add: make402Response_def)
  have s: "status ?r = 402" by simp
  have j: "json ?r = Inr ?ch" by simp
  have pr: "getField scripted ?ch ''price'' = Inr (Some (JNum (Finite 100)))"
    by (simp add: getField_def)
  have g: "greaterThan scripted (Some (JNum (Finite 100))) (cl_maxAutoPaySats ?c) = Inr False"
    by (simp add: greaterThan_number testClient_def createL402Client_def)
  have pay: "payInvoice scripted (restHost (cl_node ?c)) (macaroon (cl_node ?c))
               (field ?ch ''invoice'') (skipTlsVerify (cl_node ?c)) ?p1 = (Inr ?pay, ?p2)"
    by (simp add: payInvoice_def lndFetch_def paymentInit_def fetch_def testClient_def
        createL402Client_def testNode_def paymentCall_def makeLndPaymentResponse_def scripted_def)
  have pe: "getField scripted ?pay ''payment_error'' = Inr (Some (JStr []))"
    by (simp add: getField_def)
  have e: "\<not> truthy (Some (JStr []))" by simp
  have b: "bufferFromBase64 scripted (field ?pay ''payment_preimage'') = Inr (hexDecode PREIMAGE_HEX)"
    by (simp add: bufferFromBase64_def scripted_def)
  have mc: "toStr scripted (field ?ch ''macaroon'') = Inr MACAROON_B64"
    by (simp add: toStr_string)
  have tok: "L402_TOKEN = ''L402 '' @ MACAROON_B64 @ '':'' @ hexEncode (hexDecode PREIMAGE_HEX)"
    by (simp add: L402_TOKEN_def hex_PREIMAGE_HEX)
  have hs: "requestHeaders ?c testUrl emptyInit = []"
    by (simp add: requestHeaders_def testClient_def createL402Client_def emptyInit_def)
  have f3: "fetch scripted testUrl
              (emptyInit\<lparr>init_headers := AList.update ''Authorization'' L402_TOKEN
                 (requestHeaders ?c testUrl emptyInit)\<rparr>) ?p2 = (Inr ?a, ?p3)"
    unfolding hs
    by (simp add: fetch_def scripted_def emptyInit_def targetCall_def makeResponse_def)
  have d: "json ?a = Inr (JStr ''Invalid L402 token'')" by simp
  have upd: "AList.update testUrl L402_TOKEN (tokenCache ?c) = [(testUrl, L402_TOKEN)]"
    by (simp add: testClient_def createL402Client_def)
  from retry_returned_unchecked [OF f s j pr g pay pe e b mc tok f3 d]
  show ?thesis by (simp add: hex_PREIMAGE_HEX upd)
qed


end
